theory Spec2Isabelle
  imports Complex_Main "HOL-Library.Sublist"
begin

section \<open>NewsExplorer: the ingestion pipeline of backend.py\<close>

text \<open>
  A shallow embedding of \<^verbatim>\<open>src/backend.py\<close>: the text helpers, the two classifiers,
  the feed fetcher, the orchestrator, the deduplicator, the store writer, the two job
  entry points and the filter endpoint of the query service.

  Conventions of the model.
  \<^item> A Python \<^verbatim>\<open>str\<close> is a list of code points (\<open>pystr\<close>), so that \<^verbatim>\<open>len\<close>, slicing
    and \<^verbatim>\<open>strip\<close> count what Python counts. \<open>py\<close> embeds an ASCII literal.
  \<^item> An exception is a value of \<open>exn\<close>; every constructor stands for a subclass of Python's
    \<^verbatim>\<open>Exception\<close>. A computation that may raise returns \<open>exn + 'a\<close>, with \<open>Inl\<close> the
    raised exception. \<^verbatim>\<open>try ... except C\<close> is \<open>try_except\<close> with the class test of \<open>C\<close>.
  \<^item> The libraries and the outside world (HTTP, feedparser, BeautifulSoup, langdetect,
    VADER, the clock, \<^verbatim>\<open>strptime\<close>/\<^verbatim>\<open>strftime\<close>, the SQLite engine, the file system) are
    the fields of the record \<open>env\<close>; every theorem holds for every \<open>env\<close>.
  \<^item> Calls to \<^verbatim>\<open>logging\<close> are not modelled.
\<close>

subsection \<open>Strings, exceptions, floats\<close>

type_synonym pystr = "nat list"

definition py :: "string \<Rightarrow> pystr" where
  "py s = map of_char s"

datatype exn =
    RequestException
  | HTTPError
  | ValueError
  | TypeError
  | KeyError
  | Sqlite3Error
  | DatabaseError
  | OtherException

text \<open>Class tests: \<^verbatim>\<open>requests.HTTPError\<close> is a subclass of \<^verbatim>\<open>requests.RequestException\<close>.\<close>

definition is_Exception :: "exn \<Rightarrow> bool" where
  "is_Exception e = True"

definition is_ValueError :: "exn \<Rightarrow> bool" where
  "is_ValueError e = (e = ValueError)"

definition is_RequestException :: "exn \<Rightarrow> bool" where
  "is_RequestException e = (e = RequestException \<or> e = HTTPError)"

definition is_sqlite3_Error :: "exn \<Rightarrow> bool" where
  "is_sqlite3_Error e = (e = Sqlite3Error)"

definition try_except :: "(exn \<Rightarrow> bool) \<Rightarrow> exn + 'a \<Rightarrow> (exn \<Rightarrow> exn + 'a) \<Rightarrow> exn + 'a" where
  "try_except cls body handler =
     (case body of
        Inl e \<Rightarrow> (if cls e then handler e else Inl e)
      | Inr v \<Rightarrow> Inr v)"

definition then_do :: "exn + 'a \<Rightarrow> ('a \<Rightarrow> exn + 'b) \<Rightarrow> exn + 'b" where
  "then_do m f = (case m of Inl e \<Rightarrow> Inl e | Inr v \<Rightarrow> f v)"

text \<open>
  A Python \<^verbatim>\<open>float\<close>: a finite double is the rational it denotes, and the comparison
  of two doubles is the comparison of these rationals; a comparison with NaN is false.
\<close>

datatype pyfloat = Finite rat | PosInf | NegInf | NaN

fun float_lt :: "pyfloat \<Rightarrow> pyfloat \<Rightarrow> bool" where
  "float_lt NaN y = False"
| "float_lt x NaN = False"
| "float_lt PosInf y = False"
| "float_lt NegInf NegInf = False"
| "float_lt NegInf y = True"
| "float_lt (Finite a) PosInf = True"
| "float_lt (Finite a) NegInf = False"
| "float_lt (Finite a) (Finite b) = (a < b)"

definition float_gt :: "pyfloat \<Rightarrow> pyfloat \<Rightarrow> bool" where
  "float_gt x y = float_lt y x"

text \<open>
  The literal \<^verbatim>\<open>0.05\<close> denotes the double \<^verbatim>\<open>0x1.999999999999ap-5\<close>, that is
  \<open>3602879701896397 / 2 ^ 56\<close>; \<^verbatim>\<open>-0.05\<close> is its negation.
\<close>

definition lit_0_05 :: rat where
  "lit_0_05 = 3602879701896397 / 72057594037927936"

subsection \<open>The environment\<close>

record response =
  status_code :: nat
  content :: "nat list"

text \<open>
  A feedparser entry. A field is \<open>Some v\<close> when \<^verbatim>\<open>entry.get(key, default)\<close> finds the
  key with value \<open>v\<close>, and \<open>None\<close> when it returns the default.
\<close>

record entry =
  entry_published :: "pystr option"
  entry_updated :: "pystr option"
  entry_title :: "pystr option"
  entry_summary :: "pystr option"
  entry_description :: "pystr option"
  entry_link :: "pystr option"

text \<open>
  What \<^verbatim>\<open>scrape_historical_articles\<close> reads from a parsed page: the text of the first
  \<^verbatim>\<open>title\<close> element, the texts of the \<^verbatim>\<open>p\<close> elements, and the \<^verbatim>\<open>content\<close> attribute
  of the two \<^verbatim>\<open>meta\<close> elements it looks for (\<open>None\<close> when the element or the
  attribute is absent).
\<close>

record page =
  page_title :: "pystr option"
  page_paragraphs :: "pystr list"
  page_published_time :: "pystr option"
  page_og_site :: "pystr option"

record article =
  title :: pystr
  publication_date :: pystr
  source :: pystr
  country :: pystr
  summary :: pystr
  url :: pystr
  language :: pystr
  sentiment :: pystr

text \<open>
  A \<^verbatim>\<open>datetime\<close>: naive (microseconds of wall-clock time) or aware (wall-clock
  microseconds and the UTC offset in microseconds).
\<close>

datatype datetime = Naive int | Aware int int

record env =
  session_get :: "pystr \<Rightarrow> exn + response"
  feedparser_parse :: "nat list \<Rightarrow> exn + entry list"
  BeautifulSoup :: "nat list \<Rightarrow> pystr \<Rightarrow> exn + page"
  detect :: "pystr \<Rightarrow> exn + pystr"
  polarity_scores :: "pystr \<Rightarrow> exn + (pystr \<Rightarrow> pyfloat option)"
  now :: "pystr \<Rightarrow> nat \<Rightarrow> int"
  strptime :: "pystr \<Rightarrow> exn + (int \<times> int)"
  strftime :: "datetime \<Rightarrow> pystr"
  db_connect :: "exn option"
  db_execute :: "nat \<Rightarrow> article \<Rightarrow> exn option"
  read_sql_query :: "pystr \<Rightarrow> pystr list \<Rightarrow> exn + article list"
  to_csv :: "article list \<Rightarrow> exn option"
  to_json :: "article list \<Rightarrow> exn option"

text \<open>
  \<^item> \<open>session_get env u\<close>: \<^verbatim>\<open>self.session.get(u, headers=..., timeout=10)\<close>, retries
    included; \<open>Inl\<close> when the call raises.
  \<^item> \<open>feedparser_parse env c\<close>: the \<^verbatim>\<open>entries\<close> of \<^verbatim>\<open>feedparser.parse(c)\<close>.
  \<^item> \<open>BeautifulSoup env c f\<close>: \<^verbatim>\<open>BeautifulSoup(response.text, f)\<close> on a response with
    content \<open>c\<close> read as UTF-8.
  \<^item> \<open>now env u k\<close>: the \<open>k\<close>-th reading of \<^verbatim>\<open>datetime.now()\<close> while the source with
    URL \<open>u\<close> is processed (a naive local time).
  \<^item> \<open>strptime env s\<close>: \<^verbatim>\<open>datetime.strptime(s, '%a, %d %b %Y %H:%M:%S %z')\<close>. The format
    ends in \<^verbatim>\<open>%z\<close>, so a successful parse carries a UTC offset: the result is the
    wall-clock time and the offset of an aware datetime.
  \<^item> \<open>strftime env d\<close>: \<^verbatim>\<open>d.strftime('%Y-%m-%d %H:%M:%S')\<close>.
  \<^item> \<open>db_connect env\<close>: the exception of \<^verbatim>\<open>sqlite3.connect\<close>, if it raises.
  \<^item> \<open>db_execute env k x\<close>: the exception raised while the \<open>k\<close>-th row \<open>x\<close> of a batch is
    written (by \<^verbatim>\<open>cursor.execute\<close> or \<^verbatim>\<open>conn.commit\<close>), if any, for a reason other than
    the uniqueness constraint, which \<^verbatim>\<open>INSERT OR IGNORE\<close> resolves without raising.
  \<^item> \<open>read_sql_query env q ps\<close>: \<^verbatim>\<open>pd.read_sql_query(q, conn, params=ps)\<close>, as records.
  \<^item> \<open>to_csv env b\<close>, \<open>to_json env b\<close>: the exception of the file export of \<open>b\<close>, if any.
\<close>

subsection \<open>clean_text\<close>

text \<open>\<^verbatim>\<open>str.isspace\<close> and the class \<^verbatim>\<open>\s\<close> of a \<^verbatim>\<open>str\<close> pattern: Unicode white space.\<close>

definition isspace :: "nat \<Rightarrow> bool" where
  "isspace c =
     ((9 \<le> c \<and> c \<le> 13) \<or> (28 \<le> c \<and> c \<le> 32) \<or> c = 133 \<or> c = 160 \<or> c = 5760 \<or>
      (8192 \<le> c \<and> c \<le> 8202) \<or> c = 8232 \<or> c = 8233 \<or> c = 8239 \<or> c = 8287 \<or>
      c = 12288)"

definition strip :: "pystr \<Rightarrow> pystr" where
  "strip s = rev (dropWhile isspace (rev (dropWhile isspace s)))"

text \<open>\<^verbatim>\<open>re.sub(r'\s+', ' ', s)\<close>: every maximal run of white space becomes one space.\<close>

function sub_spaces :: "pystr \<Rightarrow> pystr" where
  "sub_spaces [] = []"
| "sub_spaces (c # cs) =
     (if isspace c then 32 # sub_spaces (dropWhile isspace cs) else c # sub_spaces cs)"
  by pat_completeness auto
termination
  by (relation "measure length") (auto simp: length_dropWhile_le less_Suc_eq_le)

text \<open>
  \<^verbatim>\<open>s.encode('utf-8', errors='ignore').decode('utf-8')\<close>: the code points that UTF-8
  cannot encode, the surrogates, are dropped; the others survive the round trip.
\<close>

definition is_surrogate :: "nat \<Rightarrow> bool" where
  "is_surrogate c = (55296 \<le> c \<and> c \<le> 57343)"

definition utf8_roundtrip :: "pystr \<Rightarrow> pystr" where
  "utf8_roundtrip s = filter (\<lambda>c. \<not> is_surrogate c) s"

definition clean_text :: "pystr \<Rightarrow> pystr" where
  "clean_text text =
     (if text = [] then []
      else utf8_roundtrip (sub_spaces (strip text)))"

subsection \<open>detect_language\<close>

definition detect_language :: "env \<Rightarrow> pystr \<Rightarrow> exn + pystr" where
  "detect_language env text =
     try_except is_Exception
       (if length (strip text) < 10 then Inr (py ''unknown'')
        else then_do (detect env (take 1000 text))
               (\<lambda>lang. Inr (if lang \<noteq> [] then lang else py ''unknown'')))
       (\<lambda>e. Inr (py ''unknown''))"

subsection \<open>analyze_sentiment\<close>

definition getitem :: "(pystr \<Rightarrow> 'v option) \<Rightarrow> pystr \<Rightarrow> exn + 'v" where
  "getitem d k = (case d k of None \<Rightarrow> Inl KeyError | Some v \<Rightarrow> Inr v)"

definition analyze_sentiment :: "env \<Rightarrow> pystr \<Rightarrow> exn + pystr" where
  "analyze_sentiment env text =
     try_except is_Exception
       (then_do (polarity_scores env text) (\<lambda>scores.
        then_do (getitem scores (py ''compound'')) (\<lambda>compound.
          if float_gt compound (Finite lit_0_05) then Inr (py ''positive'')
          else if float_lt compound (Finite (- lit_0_05)) then Inr (py ''negative'')
          else Inr (py ''neutral''))))
       (\<lambda>e. Inr (py ''unknown''))"

subsection \<open>Dates\<close>

text \<open>
  Python's \<^verbatim>\<open><\<close> on two datetimes: two naive ones compare by wall-clock time, two
  aware ones by UTC time, and a naive one against an aware one raises \<^verbatim>\<open>TypeError\<close>.
\<close>

fun dt_less :: "datetime \<Rightarrow> datetime \<Rightarrow> exn + bool" where
  "dt_less (Naive a) (Naive b) = Inr (a < b)"
| "dt_less (Aware a oa) (Aware b ob) = Inr (a - oa < b - ob)"
| "dt_less (Naive a) (Aware b ob) = Inl TypeError"
| "dt_less (Aware a oa) (Naive b) = Inl TypeError"

text \<open>\<^verbatim>\<open>timedelta(days=365)\<close> in microseconds.\<close>

definition days_365 :: int where
  "days_365 = 365 * 86400 * 1000000"

subsection \<open>fetch_feed\<close>

text \<open>\<^verbatim>\<open>response.raise_for_status()\<close>: a 4xx or 5xx status raises \<^verbatim>\<open>HTTPError\<close>.\<close>

definition raise_for_status :: "response \<Rightarrow> exn + unit" where
  "raise_for_status r =
     (if 400 \<le> status_code r \<and> status_code r < 600 then Inl HTTPError else Inr ())"

text \<open>
  The date block of the loop body (lines 286 to 299). \<open>Continue\<close> is the \<^verbatim>\<open>continue\<close>
  of line 292; \<open>Dated d\<close> is the value of \<^verbatim>\<open>pub_date\<close> after the block. The second
  component counts the readings of the clock.
\<close>

datatype date_outcome = Continue | Dated datetime

definition entry_pub_date ::
  "env \<Rightarrow> pystr \<Rightarrow> datetime \<Rightarrow> nat \<Rightarrow> entry \<Rightarrow> exn + (date_outcome \<times> nat)" where
  "entry_pub_date env feed_url one_year_ago k e =
     try_except is_Exception
       (let pub_date =
              (case entry_published e of
                 Some p \<Rightarrow> p
               | None \<Rightarrow> (case entry_updated e of Some u \<Rightarrow> u | None \<Rightarrow> []))
        in if pub_date \<noteq> [] then
             try_except is_ValueError
               (then_do (strptime env pub_date) (\<lambda>(t, off).
                then_do (dt_less (Aware t off) one_year_ago) (\<lambda>older.
                  if older then Inr (Continue, k) else Inr (Dated (Aware t off), k))))
               (\<lambda>err. Inr (Dated (Naive (now env feed_url k)), Suc k))
           else Inr (Dated (Naive (now env feed_url k)), Suc k))
       (\<lambda>err. Inr (Dated (Naive (now env feed_url k)), Suc k))"

text \<open>The rest of the loop body (lines 301 to 316).\<close>

definition build_article ::
  "env \<Rightarrow> pystr \<Rightarrow> pystr \<Rightarrow> entry \<Rightarrow> datetime \<Rightarrow> exn + article" where
  "build_article env country' agency e pub_date =
     (let title' = clean_text (case entry_title e of Some t \<Rightarrow> t | None \<Rightarrow> py ''No Title'');
          summary' = clean_text
            (case entry_summary e of
               Some s \<Rightarrow> s
             | None \<Rightarrow> (case entry_description e of Some d \<Rightarrow> d | None \<Rightarrow> []));
          url' = (case entry_link e of Some l \<Rightarrow> l | None \<Rightarrow> [])
      in then_do (detect_language env (title' @ py '' '' @ summary')) (\<lambda>language'.
         then_do (analyze_sentiment env summary') (\<lambda>sentiment'.
           Inr \<lparr>title = title',
                publication_date = strftime env pub_date,
                source = agency,
                country = country',
                summary = summary',
                url = url',
                language = language',
                sentiment = sentiment'\<rparr>)))"

fun fetch_entries ::
  "env \<Rightarrow> pystr \<Rightarrow> pystr \<Rightarrow> pystr \<Rightarrow> datetime \<Rightarrow> nat \<Rightarrow> entry list \<Rightarrow> exn + article list" where
  "fetch_entries env country' agency feed_url one_year_ago k [] = Inr []"
| "fetch_entries env country' agency feed_url one_year_ago k (e # es) =
     then_do (entry_pub_date env feed_url one_year_ago k e) (\<lambda>(outcome, k').
       case outcome of
         Continue \<Rightarrow> fetch_entries env country' agency feed_url one_year_ago k' es
       | Dated pub_date \<Rightarrow>
           then_do (build_article env country' agency e pub_date) (\<lambda>a.
           then_do (fetch_entries env country' agency feed_url one_year_ago k' es) (\<lambda>rest.
             Inr (a # rest))))"

definition fetch_feed :: "env \<Rightarrow> pystr \<Rightarrow> pystr \<Rightarrow> pystr \<Rightarrow> exn + article list" where
  "fetch_feed env country' agency feed_url =
     try_except is_Exception
       (try_except is_RequestException
          (then_do (session_get env feed_url) (\<lambda>response.
           then_do (raise_for_status response) (\<lambda>_.
           then_do (feedparser_parse env (content response)) (\<lambda>entries.
             if entries = [] then Inr []
             else fetch_entries env country' agency feed_url
                    (Naive (now env feed_url 0 - days_365)) 1 entries))))
          (\<lambda>err. Inr []))
       (\<lambda>err. Inr [])"

subsection \<open>scrape_historical_articles\<close>

fun join :: "pystr \<Rightarrow> pystr list \<Rightarrow> pystr" where
  "join sep [] = []"
| "join sep [x] = x"
| "join sep (x # y # ys) = x @ sep @ join sep (y # ys)"

text \<open>The body of the \<^verbatim>\<open>try\<close> of lines 342 to 365, for one URL.\<close>

definition historical_article :: "env \<Rightarrow> pystr \<Rightarrow> pystr \<Rightarrow> exn + article" where
  "historical_article env country' url' =
     then_do (session_get env url') (\<lambda>response.
     then_do (BeautifulSoup env (content response) (py ''summary'')) (\<lambda>soup.
       let title' = clean_text (case page_title soup of Some t \<Rightarrow> t | None \<Rightarrow> py ''No Title'');
           summary' = clean_text
             (if page_paragraphs soup \<noteq> [] then join (py '' '') (take 3 (page_paragraphs soup))
              else []);
           pub_date =
             (case page_published_time soup of
                Some c \<Rightarrow> if c \<noteq> [] then c else strftime env (Naive (now env url' 0))
              | None \<Rightarrow> strftime env (Naive (now env url' 0)));
           source' =
             (case page_og_site soup of
                Some c \<Rightarrow> if c \<noteq> [] then c else py ''Unknown''
              | None \<Rightarrow> py ''Unknown'')
       in then_do (detect_language env (title' @ py '' '' @ summary')) (\<lambda>language'.
          then_do (analyze_sentiment env summary') (\<lambda>sentiment'.
            Inr \<lparr>title = title',
                 publication_date = pub_date,
                 source = source',
                 country = country',
                 summary = summary',
                 url = url',
                 language = language',
                 sentiment = sentiment'\<rparr>))))"

fun historical_urls :: "env \<Rightarrow> pystr \<Rightarrow> pystr list \<Rightarrow> exn + article list" where
  "historical_urls env country' [] = Inr []"
| "historical_urls env country' (u # us) =
     then_do (try_except is_Exception
                (then_do (historical_article env country' u) (\<lambda>a. Inr [a]))
                (\<lambda>err. Inr []))
       (\<lambda>found.
     then_do (historical_urls env country' us) (\<lambda>rest. Inr (found @ rest)))"

fun scrape_historical_articles ::
  "env \<Rightarrow> (pystr \<times> pystr list) list \<Rightarrow> exn + article list" where
  "scrape_historical_articles env [] = Inr []"
| "scrape_historical_articles env ((country', urls) # items) =
     then_do (historical_urls env country' urls) (\<lambda>found.
     then_do (scrape_historical_articles env items) (\<lambda>rest. Inr (found @ rest)))"

subsection \<open>Configuration\<close>

text \<open>
  The two dictionaries of the module, in insertion order (the order in which Python
  iterates over them).
\<close>

definition RSS_FEEDS :: "(pystr \<times> (pystr \<times> pystr) list) list" where
  "RSS_FEEDS =
     [(py ''UK'',
       [(py ''BBC News'',
         py ''http://feeds.bbci.co.uk/news/rss.xml''),
        (py ''The Guardian'',
         py ''https://www.theguardian.com/world/rss'')]),
      (py ''USA'',
       [(py ''CNN'',
         py ''http://rss.cnn.com/rss/edition.rss''),
        (py ''The New York Times'',
         py ''https://rss.nytimes.com/services/xml/rss/nyt/World.xml'')]),
      (py ''Qatar'',
       [(py ''Al Jazeera'',
         py ''https://www.aljazeera.com/xml/rss/all.xml'')]),
      (py ''Japan'',
       [(py ''NHK'',
         py ''https://www3.nhk.or.jp/rss/news/cat0.xml''),
        (py ''The Japan Times'',
         py ''https://www.japantimes.co.jp/feed/top'')]),
      (py ''India'',
       [(py ''The Times of India'',
         py ''https://timesofindia.indiatimes.com/rssfeedstopstories.cms''),
        (py ''The Hindu'',
         py ''https://www.thehindu.com/feeder/default.rss'')]),
      (py ''Singapore'',
       [(py ''The Straits Times'',
         py ''https://www.straitstimes.com/rss/latest-news'')]),
      (py ''Malaysia'',
       [(py ''The Star'',
         py ''https://www.thestar.com.my/rss'')]),
      (py ''Indonesia'',
       [(py ''Jakarta Post'',
         py ''https://www.thejakartapost.com/feed'')]),
      (py ''South Korea'',
       [(py ''The Korea Herald'',
         py ''http://www.koreaherald.com/rss'')]),
      (py ''China'',
       [(py ''China Daily'',
         py ''http://www.chinadaily.com.cn/rss/world_rss.xml'')]),
      (py ''Australia'',
       [(py ''ABC News'',
         py ''https://www.abc.net.au/news/feed'')]),
      (py ''Canada'',
       [(py ''CBC News'',
         py ''https://www.cbc.ca/webfeed/rss/rss-world'')]),
      (py ''Germany'',
       [(py ''Deutsche Welle'',
         py ''https://rss.dw.com/xml/rss_en_world'')]),
      (py ''France'',
       [(py ''France 24'',
         py ''https://www.france24.com/en/rss'')]),
      (py ''Brazil'',
       [(py ''Folha de S.Paulo'',
         py ''https://www1.folha.uol.com.br/internacional/en/rss102.xml'')]),
      (py ''South Africa'',
       [(py ''News24'',
         py ''https://www.news24.com/news24/rss'')]),
      (py ''Russia'',
       [(py ''RT'',
         py ''https://www.rt.com/rss/news'')]),
      (py ''Nigeria'',
       [(py ''The Punch'',
         py ''https://punchng.com/feed'')]),
      (py ''Mexico'',
       [(py ''El Universal'',
         py ''https://www.eluniversal.com.mx/rss.xml'')]),
      (py ''Italy'',
       [(py ''ANSA'',
         py ''https://www.ansa.it/sito/ansait_rss.xml'')]),
      (py ''Spain'',
       [(py ''El Pa'' @ [8730] @ [8800] @ py ''s'',
         py ''https://feeds.elpais.com/rss'')]),
      (py ''Turkey'',
       [(py ''Hurriyet Daily News'',
         py ''http://www.hurriyetdailynews.com/rss'')]),
      (py ''Egypt'',
       [(py ''Ahram Online'',
         py ''http://english.ahram.org.eg/RSS.aspx'')]),
      (py ''Argentina'',
       [(py ''La Nacional'',
         py ''https://www.lanacion.com.ar/rss/arcio/rss/'')])]"

definition HISTORICAL_URLS :: "(pystr \<times> pystr list) list" where
  "HISTORICAL_URLS =
     [(py ''UK'',
       [py ''https://www.bbc.com/news/articles/cp00jze920eo'']),
      (py ''USA'',
       [py ''https://www.cnn.com/2023/01/31/tennis/atp-alexander-zverev-domestic-abuse-spt-intl/index.html'']),
      (py ''India'',
       [py ''https://timesofindia.indiatimes.com/toi/articleshow/121320973.cms'']),
      (py ''Qatar'',
       [py ''https://www.aljazeera.com/news/liveblog/2025/5/30/live-israel-forces-new-displacement-in-north-gaza-as-strikes-intensify''])]"

subsection \<open>The scraper's state\<close>

text \<open>
  The in-memory batch of the \<^verbatim>\<open>NewsScraper\<close> instance together with what it writes:
  the rows of the table \<^verbatim>\<open>news\<close> in insertion order and the two export files. The
  content of a file is \<open>Unknown\<close> before the first export and after a failed one.
\<close>

datatype file_content = Unknown | Records "article list"

record state =
  news_data :: "article list"
  db :: "article list"
  csv_file :: file_content
  json_file :: file_content

text \<open>
  A method of the scraper returns the state it leaves and the exception it raises, if
  any. \<open>and_then\<close> runs the next statement unless the previous one raised.
\<close>

definition and_then ::
  "state \<times> exn option \<Rightarrow> (state \<Rightarrow> state \<times> exn option) \<Rightarrow> state \<times> exn option" where
  "and_then r f = (case r of (st, None) \<Rightarrow> f st | (st, Some e) \<Rightarrow> (st, Some e))"

subsection \<open>scrape_all_feeds\<close>

definition feed_sources :: "(pystr \<times> (pystr \<times> pystr) list) list \<Rightarrow> (pystr \<times> pystr \<times> pystr) list" where
  "feed_sources feeds =
     concat (map (\<lambda>(country', fs). map (\<lambda>(agency, feed_url). (country', agency, feed_url)) fs) feeds)"

text \<open>
  The loop over the futures: \<^verbatim>\<open>future.result()\<close> returns what the task returned or
  raises what it raised.
\<close>

fun collect_results :: "(exn + article list) list \<Rightarrow> state \<Rightarrow> state \<times> exn option" where
  "collect_results [] st = (st, None)"
| "collect_results (Inl e # tasks) st = (st, Some e)"
| "collect_results (Inr entries # tasks) st =
     collect_results tasks (st\<lparr>news_data := news_data st @ entries\<rparr>)"

text \<open>
  Every task is submitted before the historical pages are scraped, and the results are
  read in the order of submission; a task depends on the environment only.
\<close>

definition scrape_all_feeds :: "env \<Rightarrow> state \<Rightarrow> state \<times> exn option" where
  "scrape_all_feeds env st =
     (let tasks = map (\<lambda>(country', agency, feed_url). fetch_feed env country' agency feed_url)
                    (feed_sources RSS_FEEDS)
      in case scrape_historical_articles env HISTORICAL_URLS of
           Inl e \<Rightarrow> (st, Some e)
         | Inr found \<Rightarrow> collect_results tasks (st\<lparr>news_data := news_data st @ found\<rparr>))"

subsection \<open>remove_duplicates\<close>

text \<open>
  \<^verbatim>\<open>DataFrame.drop_duplicates(subset=..., keep='first')\<close>: a row is dropped when an
  earlier row has the same values in the columns of \<^verbatim>\<open>subset\<close> (here \<open>cols\<close>).
\<close>

fun drop_duplicates_seen :: "('a \<Rightarrow> 'k) \<Rightarrow> 'k list \<Rightarrow> 'a list \<Rightarrow> 'a list" where
  "drop_duplicates_seen cols seen [] = []"
| "drop_duplicates_seen cols seen (x # xs) =
     (if cols x \<in> set seen then drop_duplicates_seen cols seen xs
      else x # drop_duplicates_seen cols (cols x # seen) xs)"

definition drop_duplicates :: "('a \<Rightarrow> 'k) \<Rightarrow> 'a list \<Rightarrow> 'a list" where
  "drop_duplicates cols xs = drop_duplicates_seen cols [] xs"

text \<open>The columns of line 405.\<close>

definition dedup_subset :: "article \<Rightarrow> pystr \<times> pystr \<times> pystr" where
  "dedup_subset a = (title a, source a, url a)"

definition remove_duplicates :: "state \<Rightarrow> state" where
  "remove_duplicates st = st\<lparr>news_data := drop_duplicates dedup_subset (news_data st)\<rparr>"

text \<open>The identity key of the specification, which is the uniqueness constraint of the table.\<close>

definition identity_key :: "article \<Rightarrow> pystr \<times> pystr \<times> pystr \<times> pystr" where
  "identity_key a = (title a, publication_date a, source a, url a)"

subsection \<open>save_to_csv, save_to_json, save_to_database\<close>

definition save_to_csv :: "env \<Rightarrow> state \<Rightarrow> state \<times> exn option" where
  "save_to_csv env st =
     (case to_csv env (news_data st) of
        None \<Rightarrow> (st\<lparr>csv_file := Records (news_data st)\<rparr>, None)
      | Some e \<Rightarrow> (st\<lparr>csv_file := Unknown\<rparr>, if is_Exception e then None else Some e))"

definition save_to_json :: "env \<Rightarrow> state \<Rightarrow> state \<times> exn option" where
  "save_to_json env st =
     (case to_json env (news_data st) of
        None \<Rightarrow> (st\<lparr>json_file := Records (news_data st)\<rparr>, None)
      | Some e \<Rightarrow> (st\<lparr>json_file := Unknown\<rparr>, if is_Exception e then None else Some e))"

text \<open>
  \<^verbatim>\<open>INSERT OR IGNORE\<close> under \<^verbatim>\<open>UNIQUE(title, publication_date, source, url)\<close>: a row
  whose key is already in the table is skipped, another one is appended.
\<close>

definition insert_or_ignore :: "article list \<Rightarrow> article \<Rightarrow> article list" where
  "insert_or_ignore rows x =
     (if identity_key x \<in> set (map identity_key rows) then rows else rows @ [x])"

text \<open>
  The loop of lines 433 to 448. Every row is committed as soon as it is written, so the
  rows written before an exception stay in the table.
\<close>

fun insert_rows :: "env \<Rightarrow> nat \<Rightarrow> article list \<Rightarrow> article list \<Rightarrow> article list \<times> exn option" where
  "insert_rows env k rows [] = (rows, None)"
| "insert_rows env k rows (item # items) =
     (case db_execute env k item of
        Some e \<Rightarrow> (rows, Some e)
      | None \<Rightarrow> insert_rows env (Suc k) (insert_or_ignore rows item) items)"

text \<open>The handler of line 450 catches \<^verbatim>\<open>sqlite3.Error\<close> only.\<close>

definition except_sqlite3_Error :: "exn option \<Rightarrow> exn option" where
  "except_sqlite3_Error r =
     (case r of None \<Rightarrow> None | Some e \<Rightarrow> if is_sqlite3_Error e then None else Some e)"

definition save_to_database :: "env \<Rightarrow> state \<Rightarrow> state \<times> exn option" where
  "save_to_database env st =
     (case db_connect env of
        Some e \<Rightarrow> (st, except_sqlite3_Error (Some e))
      | None \<Rightarrow>
          (let (rows, raised) = insert_rows env 0 (db st) (news_data st)
           in (st\<lparr>db := rows\<rparr>, except_sqlite3_Error raised)))"

subsection \<open>run_scrape, scrape_single_feed\<close>

definition except_Exception :: "state \<times> exn option \<Rightarrow> state \<times> exn option" where
  "except_Exception r =
     (case r of
        (st, None) \<Rightarrow> (st, None)
      | (st, Some e) \<Rightarrow> (st, if is_Exception e then None else Some e))"

definition run_scrape :: "env \<Rightarrow> state \<Rightarrow> state \<times> exn option" where
  "run_scrape env st =
     except_Exception
       (and_then (and_then (and_then (and_then
          (scrape_all_feeds env (st\<lparr>news_data := []\<rparr>))
          (\<lambda>st. (remove_duplicates st, None)))
          (save_to_csv env))
          (save_to_json env))
          (save_to_database env))"

text \<open>
  \<^verbatim>\<open>scrape_single_feed\<close> returns the state it leaves and either the entries it returns
  or the exception it raises.
\<close>

definition scrape_single_feed ::
  "env \<Rightarrow> pystr \<Rightarrow> pystr \<Rightarrow> pystr \<Rightarrow> state \<Rightarrow> state \<times> (exn + article list)" where
  "scrape_single_feed env feed_url country' agency st =
     (case fetch_feed env country' agency feed_url of
        Inl e \<Rightarrow> (st, Inl e)
      | Inr entries \<Rightarrow>
          (case and_then (and_then
                  (save_to_database env (st\<lparr>news_data := news_data st @ entries\<rparr>))
                  (save_to_csv env))
                  (save_to_json env) of
             (st', None) \<Rightarrow> (st', Inr entries)
           | (st', Some e) \<Rightarrow> (st', Inl e)))"

subsection \<open>filter_news\<close>

record FilterRequest =
  country_filter :: "pystr option"
  source_filter :: "pystr option"
  language_filter :: "pystr option"
  sentiment_filter :: "pystr option"
  year_filter :: "pystr option"
  keyword_filter :: "pystr option"

text \<open>\<^verbatim>\<open>s.split(',')\<close>\<close>

fun split_comma :: "pystr \<Rightarrow> pystr list" where
  "split_comma [] = [[]]"
| "split_comma (c # cs) =
     (if c = 44 then [] # split_comma cs
      else (case split_comma cs of
              w # ws \<Rightarrow> (c # w) # ws
            | [] \<Rightarrow> [[c]]))"

text \<open>
  One of the five blocks of lines 509 to 528: when the field is set and not empty, a
  condition \<^verbatim>\<open> AND <column> IN (?,...,?)\<close> is appended to the query and the stripped
  values to the parameters.
\<close>

definition add_in_condition ::
  "pystr \<Rightarrow> pystr option \<Rightarrow> pystr \<times> pystr list \<Rightarrow> pystr \<times> pystr list" where
  "add_in_condition column field qp =
     (case field of
        None \<Rightarrow> qp
      | Some s \<Rightarrow>
          if s = [] then qp
          else (let values = map strip (split_comma s)
                in (fst qp @ py '' AND '' @ column @ py '' IN ('' @
                      join (py '','') (map (\<lambda>_. py ''?'') values) @ py '')'',
                    snd qp @ values)))"

definition add_keyword_condition :: "pystr option \<Rightarrow> pystr \<times> pystr list \<Rightarrow> pystr \<times> pystr list" where
  "add_keyword_condition field qp =
     (case field of
        None \<Rightarrow> qp
      | Some k \<Rightarrow>
          if k = [] then qp
          else (fst qp @ py '' AND (title LIKE ? summary LIKE ?)'',
                snd qp @ [py ''%'' @ k @ py ''%'', py ''%'' @ k @ py ''%'']))"

text \<open>The query text and the parameters that \<^verbatim>\<open>filter_news\<close> hands to the database.\<close>

definition filter_query :: "FilterRequest \<Rightarrow> pystr \<times> pystr list" where
  "filter_query filters =
     add_keyword_condition (keyword_filter filters)
       (add_in_condition (py ''strftime('' @ [39] @ py ''%Y'' @ [39] @ py '', publication_date)'')
          (year_filter filters)
       (add_in_condition (py ''sentiment'') (sentiment_filter filters)
       (add_in_condition (py ''language'') (language_filter filters)
       (add_in_condition (py ''source'') (source_filter filters)
       (add_in_condition (py ''country'') (country_filter filters)
          (py ''SELECT * FROM news WHERE 1=1'', []))))))"

datatype http_exception = HTTPException nat

definition filter_news :: "env \<Rightarrow> FilterRequest \<Rightarrow> http_exception + article list" where
  "filter_news env filters =
     (case try_except is_Exception
             (let (query, params) = filter_query filters
              in case db_connect env of
                   Some e \<Rightarrow> Inl e
                 | None \<Rightarrow> read_sql_query env query params)
             (\<lambda>e. Inl e) of
        Inr rows \<Rightarrow> Inr rows
      | Inl e \<Rightarrow> Inl (HTTPException 500))"

subsection \<open>Example inputs\<close>

text \<open>
  A test environment. The request for the first configured feed raises, every other
  request is answered with status 200; every feed has the single entry \<open>ex_entry\<close>;
  no tree builder is found for a page; the clock shows 2026-11-04 12:00:00 (in
  microseconds since 1970) and advances by one microsecond per reading; one
  \<^verbatim>\<open>published\<close> string is parsed, to 2018-01-01 00:00:00 +0000; the database
  rejects the query text \<open>ex_keyword_query\<close> and has no rows.
\<close>

definition ex_bbc_url :: pystr where
  "ex_bbc_url = py ''http://feeds.bbci.co.uk/news/rss.xml''"

definition ex_guardian_url :: pystr where
  "ex_guardian_url = py ''https://www.theguardian.com/world/rss''"

definition ex_entry :: entry where
  "ex_entry =
     \<lparr>entry_published = None, entry_updated = None, entry_title = None,
      entry_summary = None, entry_description = None,
      entry_link = Some (py ''http://example.org/1'')\<rparr>"

definition ex_old_date :: pystr where
  "ex_old_date = py ''Mon, 01 Jan 2018 00:00:00 +0000''"

definition ex_old_entry :: entry where
  "ex_old_entry =
     ex_entry\<lparr>entry_published := Some ex_old_date, entry_title := Some (py ''Old news'')\<rparr>"


definition ex_scores :: "pyfloat \<Rightarrow> pystr \<Rightarrow> pyfloat option" where
  "ex_scores c k = (if k = py ''compound'' then Some c else None)"

text \<open>A filter request with a keyword only, and the query text built for it.\<close>

definition ex_keyword_request :: FilterRequest where
  "ex_keyword_request =
     \<lparr>country_filter = None, source_filter = None, language_filter = None,
      sentiment_filter = None, year_filter = None, keyword_filter = Some (py ''rain'')\<rparr>"

definition ex_keyword_query :: pystr where
  "ex_keyword_query = py ''SELECT * FROM news WHERE 1=1 AND (title LIKE ? summary LIKE ?)''"

definition ex_env :: env where
  "ex_env =
     \<lparr>session_get = (\<lambda>u. if u = ex_bbc_url then Inl RequestException
                         else Inr \<lparr>status_code = 200, content = []\<rparr>),
      feedparser_parse = (\<lambda>c. Inr [ex_entry]),
      BeautifulSoup = (\<lambda>c f. Inl OtherException),
      detect = (\<lambda>t. Inr (py ''en'')),
      polarity_scores = (\<lambda>t. Inr (ex_scores (Finite 0))),
      now = (\<lambda>u k. 1793793600000000 + int k),
      strptime = (\<lambda>s. if s = ex_old_date then Inr (1514764800000000, 0) else Inl ValueError),
      strftime = (\<lambda>d. case d of
                         Naive t \<Rightarrow> py ''2026-11-04 12:00:00''
                       | Aware t off \<Rightarrow> py ''2018-01-01 00:00:00''),
      db_connect = None,
      db_execute = (\<lambda>k x. None),
      read_sql_query = (\<lambda>q ps. if q = ex_keyword_query then Inl DatabaseError else Inr []),
      to_csv = (\<lambda>b. None),
      to_json = (\<lambda>b. None)\<rparr>"

text \<open>Two articles that differ in the publication date only, and a state holding them.\<close>

definition ex_article :: article where
  "ex_article =
     \<lparr>title = py ''Storm'', publication_date = py ''2026-11-04 12:00:00'',
      source = py ''BBC News'', country = py ''UK'', summary = py ''A storm.'',
      url = py ''http://example.org/storm'', language = py ''en'',
      sentiment = py ''neutral''\<rparr>"

definition ex_article_later :: article where
  "ex_article_later = ex_article\<lparr>publication_date := py ''2026-11-05 08:00:00''\<rparr>"

definition ex_state :: state where
  "ex_state =
     \<lparr>news_data = [ex_article, ex_article_later], db = [],
      csv_file = Unknown, json_file = Unknown\<rparr>"

text \<open>
  A third article, with another title, and a batch in which it stands between the two
  articles that differ in the publication date only.
\<close>

definition ex_article_other :: article where
  "ex_article_other = ex_article\<lparr>title := py ''Flood''\<rparr>"

definition ex_state_three :: state where
  "ex_state_three =
     \<lparr>news_data = [ex_article, ex_article_other, ex_article_later], db = [],
      csv_file = Unknown, json_file = Unknown\<rparr>"

text \<open>An environment in which the write of the first row of a batch raises \<^verbatim>\<open>sqlite3.Error\<close>.\<close>

definition ex_env_row_failure :: env where
  "ex_env_row_failure =
     ex_env\<lparr>db_execute := (\<lambda>k x. if k = 0 then Some Sqlite3Error else None)\<rparr>"

text \<open>Environments whose sentiment scorer returns a given compound score, or raises.\<close>

definition ex_env_score :: "pyfloat \<Rightarrow> env" where
  "ex_env_score c = ex_env\<lparr>polarity_scores := (\<lambda>t. Inr (ex_scores c))\<rparr>"

definition ex_env_scorer_down :: env where
  "ex_env_scorer_down = ex_env\<lparr>polarity_scores := (\<lambda>t. Inl OtherException)\<rparr>"

text \<open>The double denoted by the literal \<^verbatim>\<open>0.0501\<close>, \<^verbatim>\<open>0x1.9a6b50b0f27bbp-5\<close>.\<close>

definition lit_0_0501 :: rat where
  "lit_0_0501 = 7220170922600379 / 144115188075855872"

text \<open>
  Environments in which every feed has one entry: an entry published on 2018-01-01,
  or an entry whose title is present and empty.
\<close>

definition ex_env_old_feed :: env where
  "ex_env_old_feed = ex_env\<lparr>feedparser_parse := (\<lambda>c. Inr [ex_old_entry])\<rparr>"


section \<open>Properties\<close>

subsection \<open>Exceptions\<close>

lemma then_do_Inl [simp]: "then_do (Inl e) f = Inl e"
  by (simp add: then_do_def)

lemma then_do_Inr [simp]: "then_do (Inr v) f = f v"
  by (simp add: then_do_def)

lemma try_except_Inr [simp]: "try_except cls (Inr v) h = Inr v"
  by (simp add: try_except_def)

lemma try_except_Inl [simp]: "try_except cls (Inl e) h = (if cls e then h e else Inl e)"
  by (simp add: try_except_def)

lemma is_Exception_True [simp]: "is_Exception e"
  by (simp add: is_Exception_def)

subsection \<open>Classifiers and the feed fetcher\<close>

lemma py_unknown_nonempty: "py ''unknown'' \<noteq> []"
  by (simp add: py_def)

lemma detect_language_cases:
  "detect_language env text =
     Inr (if length (strip text) < 10 then py ''unknown''
          else case detect env (take 1000 text) of
                 Inl e \<Rightarrow> py ''unknown''
               | Inr lang \<Rightarrow> if lang = [] then py ''unknown'' else lang)"
  by (cases "detect env (take 1000 text)") (simp_all add: detect_language_def)

lemma detect_language_nonempty:
  "\<exists>lang. detect_language env text = Inr lang \<and> lang \<noteq> []"
  by (simp add: detect_language_cases py_unknown_nonempty split: sum.splits)

lemma analyze_sentiment_total: "\<exists>label. analyze_sentiment env text = Inr label"
  unfolding analyze_sentiment_def getitem_def
  by (cases "polarity_scores env text") (auto split: option.splits)

lemma build_article_Inr:
  "\<exists>x. build_article env c a e d = Inr x \<and>
       title x = clean_text (case entry_title e of Some t \<Rightarrow> t | None \<Rightarrow> py ''No Title'') \<and>
       publication_date x = strftime env d \<and> source x = a \<and> country x = c \<and>
       summary x = clean_text (case entry_summary e of Some s \<Rightarrow> s
              | None \<Rightarrow> (case entry_description e of Some d \<Rightarrow> d | None \<Rightarrow> [])) \<and>
       language x \<noteq> []"
proof -
  let ?t = "clean_text (case entry_title e of Some t \<Rightarrow> t | None \<Rightarrow> py ''No Title'')"
  let ?s = "clean_text (case entry_summary e of Some s \<Rightarrow> s
              | None \<Rightarrow> (case entry_description e of Some d \<Rightarrow> d | None \<Rightarrow> []))"
  obtain lang where l: "detect_language env (?t @ py '' '' @ ?s) = Inr lang" "lang \<noteq> []"
    using detect_language_nonempty by blast
  obtain label where s: "analyze_sentiment env ?s = Inr label"
    using analyze_sentiment_total by blast
  from l s show ?thesis by (simp add: build_article_def)
qed

lemma entry_pub_date_naive:
  "entry_pub_date env u (Naive t) k e = Inr (Dated (Naive (now env u k)), Suc k)"
proof -
  let ?s = "case entry_published e of Some p \<Rightarrow> p
            | None \<Rightarrow> (case entry_updated e of Some u \<Rightarrow> u | None \<Rightarrow> [])"
  show ?thesis
  proof (cases "strptime env ?s")
    case (Inl err)
    then show ?thesis by (simp add: entry_pub_date_def Let_def)
  next
    case (Inr p)
    then show ?thesis by (cases p) (simp add: entry_pub_date_def Let_def is_ValueError_def)
  qed
qed

lemma fetch_entries_naive:
  "\<exists>out. fetch_entries env c a u (Naive t) k es = Inr out \<and> length out = length es \<and>
     (\<forall>i < length es.
        build_article env c a (es ! i) (Naive (now env u (k + i))) = Inr (out ! i))"
proof (induction es arbitrary: k)
  case Nil
  show ?case by simp
next
  case (Cons e es)
  obtain x where x: "build_article env c a e (Naive (now env u k)) = Inr x"
    using build_article_Inr by blast
  obtain rest where r: "fetch_entries env c a u (Naive t) (Suc k) es = Inr rest"
      "length rest = length es"
      "\<forall>i < length es.
         build_article env c a (es ! i) (Naive (now env u (Suc k + i))) = Inr (rest ! i)"
    using Cons.IH [of "Suc k"] by blast
  have "fetch_entries env c a u (Naive t) k (e # es) = Inr (x # rest)"
    using x r(1) by (simp add: entry_pub_date_naive)
  moreover have "length (x # rest) = length (e # es)"
    using r(2) by simp
  moreover have "\<forall>i < length (e # es).
      build_article env c a ((e # es) ! i) (Naive (now env u (k + i))) = Inr ((x # rest) ! i)"
  proof (intro allI impI)
    fix i assume i: "i < length (e # es)"
    show "build_article env c a ((e # es) ! i) (Naive (now env u (k + i))) = Inr ((x # rest) ! i)"
    proof (cases i)
      case 0
      with x show ?thesis by simp
    next
      case (Suc j)
      with i have "j < length es" by simp
      with r(3) Suc show ?thesis by simp
    qed
  qed
  ultimately show ?case by blast
qed

lemma fetch_feed_total: "\<exists>entries. fetch_feed env c a u = Inr entries"
proof -
  let ?body = "try_except is_RequestException
          (then_do (session_get env u) (\<lambda>response.
           then_do (raise_for_status response) (\<lambda>_.
           then_do (feedparser_parse env (content response)) (\<lambda>entries.
             if entries = [] then Inr []
             else fetch_entries env c a u (Naive (now env u 0 - days_365)) 1 entries))))
          (\<lambda>err. Inr [])"
  show ?thesis unfolding fetch_feed_def by (cases ?body) simp_all
qed

lemma fetch_feed_request_failure:
  "session_get env u = Inl e \<Longrightarrow> fetch_feed env c a u = Inr []"
  by (simp add: fetch_feed_def)

lemma fetch_feed_http_error:
  "session_get env u = Inr r \<Longrightarrow> 400 \<le> status_code r \<Longrightarrow> status_code r < 600 \<Longrightarrow>
   fetch_feed env c a u = Inr []"
  by (simp add: fetch_feed_def raise_for_status_def is_RequestException_def)

lemma fetch_feed_parse_failure:
  "session_get env u = Inr r \<Longrightarrow> feedparser_parse env (content r) = Inl e \<Longrightarrow>
   fetch_feed env c a u = Inr []"
  by (simp add: fetch_feed_def raise_for_status_def is_RequestException_def)

lemma fetch_feed_empty_feed:
  "session_get env u = Inr r \<Longrightarrow> feedparser_parse env (content r) = Inr [] \<Longrightarrow>
   fetch_feed env c a u = Inr []"
  by (simp add: fetch_feed_def raise_for_status_def is_RequestException_def)

lemma fetch_feed_entries:
  "session_get env u = Inr r \<Longrightarrow> \<not> (400 \<le> status_code r \<and> status_code r < 600) \<Longrightarrow>
   feedparser_parse env (content r) = Inr es \<Longrightarrow>
   fetch_feed env c a u = fetch_entries env c a u (Naive (now env u 0 - days_365)) 1 es"
proof -
  assume a: "session_get env u = Inr r" "\<not> (400 \<le> status_code r \<and> status_code r < 600)"
    "feedparser_parse env (content r) = Inr es"
  obtain out where o: "fetch_entries env c a u (Naive (now env u 0 - days_365)) 1 es = Inr out"
    using fetch_entries_naive by blast
  show ?thesis
  proof (cases "es = []")
    case True
    with a show ?thesis by (simp add: fetch_feed_def raise_for_status_def)
  next
    case False
    with a o show ?thesis by (auto simp: fetch_feed_def raise_for_status_def)
  qed
qed

lemma historical_urls_total: "\<exists>found. historical_urls env c us = Inr found"
proof (induction us)
  case Nil
  show ?case by simp
next
  case (Cons u us)
  then obtain rest where r: "historical_urls env c us = Inr rest" by blast
  show ?case using r by (cases "historical_article env c u") simp_all
qed

lemma scrape_historical_articles_total:
  "\<exists>found. scrape_historical_articles env items = Inr found"
proof (induction items)
  case Nil
  show ?case by simp
next
  case (Cons item items)
  then obtain rest where r: "scrape_historical_articles env items = Inr rest" by blast
  obtain c us where i: "item = (c, us)" by (cases item)
  obtain found where f: "historical_urls env c us = Inr found"
    using historical_urls_total by blast
  from r i f show ?case by simp
qed

lemma collect_results_all_returned:
  "\<forall>t \<in> set tasks. \<exists>entries. t = Inr entries \<Longrightarrow>
   collect_results tasks st = (st\<lparr>news_data := news_data st @ concat (map projr tasks)\<rparr>, None)"
proof (induction tasks arbitrary: st)
  case Nil
  show ?case by simp
next
  case (Cons t tasks)
  then obtain entries where t: "t = Inr entries" by auto
  from Cons have "collect_results tasks (st\<lparr>news_data := news_data st @ entries\<rparr>) =
    ((st\<lparr>news_data := news_data st @ entries\<rparr>)\<lparr>news_data :=
        news_data (st\<lparr>news_data := news_data st @ entries\<rparr>) @ concat (map projr tasks)\<rparr>, None)"
    by simp
  with t show ?case by simp
qed

lemma scrape_all_feeds_result:
  "\<exists>found. scrape_historical_articles env HISTORICAL_URLS = Inr found \<and>
     scrape_all_feeds env st =
       (st\<lparr>news_data := news_data st @ found @
            concat (map (\<lambda>(c, a, u). projr (fetch_feed env c a u)) (feed_sources RSS_FEEDS))\<rparr>,
        None)"
proof -
  obtain found where f: "scrape_historical_articles env HISTORICAL_URLS = Inr found"
    using scrape_historical_articles_total by blast
  let ?tasks = "map (\<lambda>(c, a, u). fetch_feed env c a u) (feed_sources RSS_FEEDS)"
  have "\<forall>t \<in> set ?tasks. \<exists>entries. t = Inr entries"
    using fetch_feed_total by auto
  then have "collect_results ?tasks (st\<lparr>news_data := news_data st @ found\<rparr>) =
    ((st\<lparr>news_data := news_data st @ found\<rparr>)\<lparr>news_data :=
       news_data (st\<lparr>news_data := news_data st @ found\<rparr>) @ concat (map projr ?tasks)\<rparr>, None)"
    by (rule collect_results_all_returned)
  with f show ?thesis
    by (simp add: scrape_all_feeds_def Let_def case_prod_unfold comp_def)
qed


lemma fetch_feed_cases:
  "fetch_feed env c a u = Inr [] \<or>
   (\<exists>r es. session_get env u = Inr r \<and> \<not> (400 \<le> status_code r \<and> status_code r < 600) \<and>
      feedparser_parse env (content r) = Inr es \<and>
      fetch_feed env c a u = fetch_entries env c a u (Naive (now env u 0 - days_365)) 1 es)"
proof (cases "session_get env u")
  case (Inl e)
  then show ?thesis by (simp add: fetch_feed_request_failure)
next
  case (Inr r)
  show ?thesis
  proof (cases "400 \<le> status_code r \<and> status_code r < 600")
    case True
    with Inr show ?thesis by (simp add: fetch_feed_http_error)
  next
    case False
    show ?thesis
    proof (cases "feedparser_parse env (content r)")
      case (Inl e)
      with Inr show ?thesis by (simp add: fetch_feed_parse_failure)
    next
      case es: (Inr es)
      from Inr False es have "fetch_feed env c a u =
          fetch_entries env c a u (Naive (now env u 0 - days_365)) 1 es"
        by (rule fetch_feed_entries)
      with Inr False es show ?thesis by blast
    qed
  qed
qed

lemma fetch_feed_language:
  assumes "fetch_feed env c a u = Inr out" and "x \<in> set out"
  shows "language x \<noteq> []"
proof -
  from fetch_feed_cases [of env c a u] show ?thesis
  proof
    assume "fetch_feed env c a u = Inr []"
    with assms show ?thesis by simp
  next
    assume "\<exists>r es. session_get env u = Inr r \<and> \<not> (400 \<le> status_code r \<and> status_code r < 600) \<and>
      feedparser_parse env (content r) = Inr es \<and>
      fetch_feed env c a u = fetch_entries env c a u (Naive (now env u 0 - days_365)) 1 es"
    then obtain es where e: "fetch_feed env c a u =
        fetch_entries env c a u (Naive (now env u 0 - days_365)) 1 es"
      by blast
    obtain out' where o: "fetch_entries env c a u (Naive (now env u 0 - days_365)) 1 es = Inr out'"
        "length out' = length es"
        "\<forall>i < length es. build_article env c a (es ! i)
            (Naive (now env u (1 + i))) = Inr (out' ! i)"
      using fetch_entries_naive by blast
    from e o(1) assms(1) have eq: "out' = out" by simp
    from assms(2) obtain i where i: "i < length out" "out ! i = x"
      by (auto simp: in_set_conv_nth)
    with o(2,3) eq have b: "build_article env c a (es ! i) (Naive (now env u (1 + i))) = Inr x"
      by auto
    from build_article_Inr [of env c a "es ! i" "Naive (now env u (1 + i))"] b
    show ?thesis by auto
  qed
qed

lemma historical_article_language:
  assumes "historical_article env c u = Inr x"
  shows "language x \<noteq> []"
proof -
  from assms obtain r where r: "session_get env u = Inr r"
    by (cases "session_get env u") (simp_all add: historical_article_def)
  from assms r obtain soup where s: "BeautifulSoup env (content r) (py ''summary'') = Inr soup"
    by (cases "BeautifulSoup env (content r) (py ''summary'')") (simp_all add: historical_article_def)
  let ?t = "clean_text (case page_title soup of Some t \<Rightarrow> t | None \<Rightarrow> py ''No Title'')"
  let ?s = "clean_text
             (if page_paragraphs soup \<noteq> [] then join (py '' '') (take 3 (page_paragraphs soup))
              else [])"
  obtain lang where l: "detect_language env (?t @ py '' '' @ ?s) = Inr lang" "lang \<noteq> []"
    using detect_language_nonempty by blast
  obtain label where a: "analyze_sentiment env ?s = Inr label"
    using analyze_sentiment_total by blast
  from assms r s l a show ?thesis
    by (auto simp: historical_article_def Let_def)
qed

lemma sublist_concat_member: "xs \<in> set xss \<Longrightarrow> sublist xs (concat xss)"
proof -
  assume "xs \<in> set xss"
  then obtain as bs where "xss = as @ xs # bs"
    by (auto simp: in_set_conv_decomp)
  then have "concat xss = concat as @ xs @ concat bs" by simp
  then show ?thesis unfolding sublist_def by blast
qed

lemma scrape_all_feeds_sublist:
  assumes "(c, a, u) \<in> set (feed_sources RSS_FEEDS)" and "fetch_feed env c a u = Inr entries"
  shows "sublist entries (news_data (fst (scrape_all_feeds env st)))"
proof -
  let ?all = "map (\<lambda>(c, a, u). projr (fetch_feed env c a u)) (feed_sources RSS_FEEDS)"
  obtain found where f: "scrape_all_feeds env st =
      (st\<lparr>news_data := news_data st @ found @ concat ?all\<rparr>, None)"
    using scrape_all_feeds_result by blast
  from assms have "entries \<in> set ?all" by force
  then have "sublist entries (concat ?all)" by (rule sublist_concat_member)
  then obtain ps ss where "concat ?all = ps @ entries @ ss"
    unfolding sublist_def by blast
  then have "news_data st @ found @ concat ?all = (news_data st @ found @ ps) @ entries @ ss"
    by simp
  then have "sublist entries (news_data st @ found @ concat ?all)"
    unfolding sublist_def by blast
  with f show ?thesis by simp
qed

lemma scrape_all_feeds_no_exception: "snd (scrape_all_feeds env st) = None"
  using scrape_all_feeds_result [of env st] by auto


lemma fetch_feed_articles:
  assumes "session_get env u = Inr r" and "\<not> (400 \<le> status_code r \<and> status_code r < 600)"
    and "feedparser_parse env (content r) = Inr es"
  shows "\<exists>out. fetch_feed env c a u = Inr out \<and> length out = length es \<and>
     (\<forall>i < length es.
        build_article env c a (es ! i) (Naive (now env u (Suc i))) = Inr (out ! i))"
proof -
  have "fetch_feed env c a u = fetch_entries env c a u (Naive (now env u 0 - days_365)) 1 es"
    using assms by (rule fetch_feed_entries)
  with fetch_entries_naive [of env c a u "now env u 0 - days_365" 1 es]
  show ?thesis by simp
qed

subsection \<open>The deduplicator\<close>

lemma drop_duplicates_seen_subseq: "subseq (drop_duplicates_seen cols seen xs) xs"
  by (induction xs arbitrary: seen) auto

lemma drop_duplicates_seen_keys:
  "cols ` set (drop_duplicates_seen cols seen xs) = cols ` set xs - set seen"
  by (induction xs arbitrary: seen) auto

lemma drop_duplicates_seen_distinct:
  "distinct (map cols (drop_duplicates_seen cols seen xs))"
proof (induction xs arbitrary: seen)
  case Nil
  show ?case by simp
next
  case (Cons x xs)
  have "cols x \<notin> cols ` set (drop_duplicates_seen cols (cols x # seen) xs)"
    by (simp add: drop_duplicates_seen_keys)
  with Cons show ?case by simp
qed

lemma drop_duplicates_seen_first:
  "b \<in> set (drop_duplicates_seen cols seen xs) \<Longrightarrow> find (\<lambda>a. cols a = cols b) xs = Some b"
proof (induction xs arbitrary: seen)
  case Nil
  then show ?case by simp
next
  case (Cons x xs)
  show ?case
  proof (cases "cols x \<in> set seen")
    case True
    with Cons.prems have b: "b \<in> set (drop_duplicates_seen cols seen xs)" by simp
    then have "cols b \<in> cols ` set xs - set seen"
      using drop_duplicates_seen_keys [of cols seen xs] by blast
    with True have "cols x \<noteq> cols b" by auto
    with Cons.IH [OF b] show ?thesis by simp
  next
    case False
    show ?thesis
    proof (cases "b = x")
      case True
      then show ?thesis by simp
    next
      case bx: False
      with False Cons.prems have b: "b \<in> set (drop_duplicates_seen cols (cols x # seen) xs)"
        by simp
      then have "cols b \<in> cols ` set xs - set (cols x # seen)"
        using drop_duplicates_seen_keys [of cols "cols x # seen" xs] by blast
      then have "cols x \<noteq> cols b" by auto
      with Cons.IH [OF b] show ?thesis by simp
    qed
  qed
qed

lemma map_nth_filter_upt_Cons:
  "map ((!) (x # xs)) (filter P [0..<Suc (length xs)]) =
     (if P 0 then [x] else []) @ map ((!) xs) (filter (\<lambda>i. P (Suc i)) [0..<length xs])"
proof -
  have "[0..<Suc (length xs)] = 0 # map Suc [0..<length xs]"
    by (simp add: upt_conv_Cons map_Suc_upt del: upt_Suc)
  then show ?thesis
    by (simp add: filter_map comp_def del: upt_Suc)
qed

lemma drop_duplicates_seen_positions:
  "drop_duplicates_seen cols seen xs =
     map ((!) xs)
       (filter (\<lambda>i. cols (xs ! i) \<notin> set seen \<union> set (map cols (take i xs))) [0..<length xs])"
proof (induction xs arbitrary: seen)
  case Nil
  show ?case by simp
next
  case (Cons x xs)
  let ?P = "\<lambda>i. cols ((x # xs) ! i) \<notin> set seen \<union> set (map cols (take i (x # xs)))"
  have split: "map ((!) (x # xs)) (filter ?P [0..<length (x # xs)]) =
      (if ?P 0 then [x] else []) @ map ((!) xs) (filter (\<lambda>i. ?P (Suc i)) [0..<length xs])"
    using map_nth_filter_upt_Cons [of x xs ?P] by simp
  show ?case
  proof (cases "cols x \<in> set seen")
    case True
    have "filter (\<lambda>i. ?P (Suc i)) [0..<length xs] =
        filter (\<lambda>i. cols (xs ! i) \<notin> set seen \<union> set (map cols (take i xs))) [0..<length xs]"
      using True by (intro filter_cong refl) auto
    with True split Cons.IH [of seen] show ?thesis by simp
  next
    case False
    have "filter (\<lambda>i. ?P (Suc i)) [0..<length xs] =
        filter (\<lambda>i. cols (xs ! i) \<notin> set (cols x # seen) \<union> set (map cols (take i xs)))
          [0..<length xs]"
      by (intro filter_cong refl) auto
    with False split Cons.IH [of "cols x # seen"] show ?thesis by simp
  qed
qed

subsection \<open>The store writer\<close>

lemma insert_or_ignore_present:
  "identity_key x \<in> identity_key ` set rows \<Longrightarrow> insert_or_ignore rows x = rows"
  by (simp add: insert_or_ignore_def)

lemma insert_or_ignore_keys:
  "identity_key ` set (insert_or_ignore rows x) = insert (identity_key x) (identity_key ` set rows)"
  by (auto simp: insert_or_ignore_def)

lemma insert_or_ignore_prefix: "prefix rows (insert_or_ignore rows x)"
  by (simp add: insert_or_ignore_def)

lemma insert_rows_prefix: "prefix rows (fst (insert_rows env k rows items))"
proof (induction items arbitrary: k rows)
  case Nil
  show ?case by simp
next
  case (Cons x xs)
  show ?case
  proof (cases "db_execute env k x")
    case None
    have "prefix rows (insert_or_ignore rows x)" by (rule insert_or_ignore_prefix)
    also have "prefix (insert_or_ignore rows x) (fst (insert_rows env (Suc k) (insert_or_ignore rows x) xs))"
      by (rule Cons.IH)
    finally show ?thesis using None by simp
  next
    case (Some e)
    then show ?thesis by simp
  qed
qed

lemma insert_rows_all_present:
  "identity_key ` set items \<subseteq> identity_key ` set rows \<Longrightarrow>
   fst (insert_rows env k rows items) = rows"
proof (induction items arbitrary: k)
  case Nil
  show ?case by simp
next
  case (Cons x xs)
  then have "insert_or_ignore rows x = rows"
    by (simp add: insert_or_ignore_present)
  with Cons show ?case by (cases "db_execute env k x") simp_all
qed

lemma insert_rows_complete_keys:
  "snd (insert_rows env k rows items) = None \<Longrightarrow>
   identity_key ` set items \<subseteq> identity_key ` set (fst (insert_rows env k rows items))"
proof (induction items arbitrary: k rows)
  case Nil
  show ?case by simp
next
  case (Cons x xs)
  show ?case
  proof (cases "db_execute env k x")
    case None
    let ?rows = "insert_or_ignore rows x"
    from Cons.prems None have c: "snd (insert_rows env (Suc k) ?rows xs) = None" by simp
    have "identity_key x \<in> identity_key ` set ?rows"
      by (simp add: insert_or_ignore_keys)
    moreover have "set ?rows \<subseteq> set (fst (insert_rows env (Suc k) ?rows xs))"
      using insert_rows_prefix [of ?rows env "Suc k" xs] by (rule set_mono_prefix)
    ultimately have "identity_key x \<in> identity_key ` set (fst (insert_rows env (Suc k) ?rows xs))"
      by blast
    with Cons.IH [OF c] None show ?thesis by simp
  next
    case (Some e)
    with Cons.prems show ?thesis by simp
  qed
qed

lemma insert_rows_no_failure:
  "(\<forall>i < length items. db_execute env (k + i) (items ! i) = None) \<Longrightarrow>
   insert_rows env k rows items = (foldl insert_or_ignore rows items, None)"
proof (induction items arbitrary: k rows)
  case Nil
  show ?case by simp
next
  case (Cons x xs)
  from Cons.prems have x: "db_execute env k x = None" by force
  have "\<forall>i < length xs. db_execute env (Suc k + i) (xs ! i) = None"
  proof (intro allI impI)
    fix i assume "i < length xs"
    then have "Suc i < length (x # xs)" by simp
    with Cons.prems have "db_execute env (k + Suc i) ((x # xs) ! Suc i) = None" by blast
    then show "db_execute env (Suc k + i) (xs ! i) = None" by simp
  qed
  from Cons.IH [OF this] x show ?case by simp
qed

lemma insert_rows_first_failure:
  "n < length items \<Longrightarrow>
   (\<forall>i < n. db_execute env (k + i) (items ! i) = None) \<Longrightarrow>
   db_execute env (k + n) (items ! n) = Some e \<Longrightarrow>
   insert_rows env k rows items = (foldl insert_or_ignore rows (take n items), Some e)"
proof (induction items arbitrary: k rows n)
  case Nil
  then show ?case by simp
next
  case (Cons x xs)
  show ?case
  proof (cases n)
    case 0
    with Cons.prems show ?thesis by simp
  next
    case (Suc m)
    with Cons.prems have x: "db_execute env k x = None" by force
    from Suc Cons.prems have m: "m < length xs" by simp
    have a: "\<forall>i < m. db_execute env (Suc k + i) (xs ! i) = None"
    proof (intro allI impI)
      fix i assume "i < m"
      then have "Suc i < n" using Suc by simp
      with Cons.prems have "db_execute env (k + Suc i) ((x # xs) ! Suc i) = None" by blast
      then show "db_execute env (Suc k + i) (xs ! i) = None" by simp
    qed
    from Cons.prems Suc have b: "db_execute env (Suc k + m) (xs ! m) = Some e" by simp
    from Cons.IH [OF m a b] x Suc show ?thesis by simp
  qed
qed

lemma save_to_database_connected:
  "db_connect env = None \<Longrightarrow>
   save_to_database env st =
     (st\<lparr>db := fst (insert_rows env 0 (db st) (news_data st))\<rparr>,
      except_sqlite3_Error (snd (insert_rows env 0 (db st) (news_data st))))"
  by (simp add: save_to_database_def case_prod_unfold Let_def)

lemma save_to_database_not_connected:
  "db_connect env = Some e \<Longrightarrow>
   save_to_database env st = (st, except_sqlite3_Error (Some e))"
  by (simp add: save_to_database_def)

subsection \<open>The jobs and the filter endpoint\<close>

lemma and_then_None [simp]: "and_then (st, None) f = f st"
  by (simp add: and_then_def)

lemma and_then_Some [simp]: "and_then (st, Some e) f = (st, Some e)"
  by (simp add: and_then_def)

lemma save_to_csv_effect:
  "\<exists>st'. save_to_csv env st = (st', None) \<and> news_data st' = news_data st \<and>
     db st' = db st \<and> json_file st' = json_file st \<and>
     (to_csv env (news_data st) = None \<longrightarrow> csv_file st' = Records (news_data st))"
  by (cases "to_csv env (news_data st)") (simp_all add: save_to_csv_def)

lemma save_to_json_effect:
  "\<exists>st'. save_to_json env st = (st', None) \<and> news_data st' = news_data st \<and>
     db st' = db st \<and> csv_file st' = csv_file st \<and>
     (to_json env (news_data st) = None \<longrightarrow> json_file st' = Records (news_data st))"
  by (cases "to_json env (news_data st)") (simp_all add: save_to_json_def)

lemma save_to_database_effect:
  "\<exists>st' r. save_to_database env st = (st', r) \<and> news_data st' = news_data st \<and>
     csv_file st' = csv_file st \<and> json_file st' = json_file st \<and>
     (db_connect env = None \<longrightarrow>
        db st' = fst (insert_rows env 0 (db st) (news_data st)) \<and>
        r = except_sqlite3_Error (snd (insert_rows env 0 (db st) (news_data st))))"
  by (cases "db_connect env")
    (simp_all add: save_to_database_connected save_to_database_not_connected)

lemma scrape_single_feed_effect:
  assumes f: "fetch_feed env c a u = Inr entries"
  shows "\<exists>st' r. scrape_single_feed env u c a st = (st', r) \<and>
     news_data st' = news_data st @ entries \<and>
     (r = Inr entries \<or> (\<exists>e. r = Inl e)) \<and>
     (db_connect env = None \<longrightarrow>
        db st' = fst (insert_rows env 0 (db st) (news_data st @ entries))) \<and>
     (r = Inr entries \<and> to_csv env (news_data st @ entries) = None \<longrightarrow>
        csv_file st' = Records (news_data st @ entries)) \<and>
     (r = Inr entries \<and> to_json env (news_data st @ entries) = None \<longrightarrow>
        json_file st' = Records (news_data st @ entries)) \<and>
     (db_connect env = None \<and>
      snd (insert_rows env 0 (db st) (news_data st @ entries)) = None \<longrightarrow> r = Inr entries)"
proof -
  let ?batch = "news_data st @ entries"
  let ?st0 = "st\<lparr>news_data := ?batch\<rparr>"
  obtain st1 r1 where s1: "save_to_database env ?st0 = (st1, r1)"
      "news_data st1 = ?batch"
      "db_connect env = None \<longrightarrow>
        db st1 = fst (insert_rows env 0 (db st) ?batch) \<and>
        r1 = except_sqlite3_Error (snd (insert_rows env 0 (db st) ?batch))"
    using save_to_database_effect [of env ?st0] by auto
  show ?thesis
  proof (cases r1)
    case (Some e)
    with f s1(1) have "scrape_single_feed env u c a st = (st1, Inl e)"
      by (simp add: scrape_single_feed_def)
    moreover from Some s1(3) have "\<not> (db_connect env = None \<and>
        snd (insert_rows env 0 (db st) ?batch) = None)"
      by (auto simp: except_sqlite3_Error_def)
    ultimately show ?thesis using s1(2,3) by auto
  next
    case None
    obtain st2 where s2: "save_to_csv env st1 = (st2, None)" "news_data st2 = news_data st1"
        "db st2 = db st1"
        "to_csv env (news_data st1) = None \<longrightarrow> csv_file st2 = Records (news_data st1)"
      using save_to_csv_effect [of env st1] by auto
    obtain st3 where s3: "save_to_json env st2 = (st3, None)" "news_data st3 = news_data st2"
        "db st3 = db st2" "csv_file st3 = csv_file st2"
        "to_json env (news_data st2) = None \<longrightarrow> json_file st3 = Records (news_data st2)"
      using save_to_json_effect [of env st2] by auto
    from f s1(1) None s2(1) s3(1)
    have "scrape_single_feed env u c a st = (st3, Inr entries)"
      by (simp add: scrape_single_feed_def)
    moreover have "news_data st3 = ?batch"
      using s3(2) s2(2) s1(2) by simp
    moreover have "db_connect env = None \<longrightarrow> db st3 = fst (insert_rows env 0 (db st) ?batch)"
      using s3(3) s2(3) s1(3) by simp
    moreover have "to_csv env ?batch = None \<longrightarrow> csv_file st3 = Records ?batch"
      using s3(4) s2(4) s1(2) by simp
    moreover have "to_json env ?batch = None \<longrightarrow> json_file st3 = Records ?batch"
      using s3(5) s2(2) s1(2) by simp
    ultimately show ?thesis
      by (intro exI [of _ st3] exI [of _ "Inr entries"]) simp
  qed
qed

lemma run_scrape_batch:
  "\<exists>found. scrape_historical_articles env HISTORICAL_URLS = Inr found \<and>
     news_data (fst (run_scrape env st)) =
       drop_duplicates dedup_subset
         (found @ concat (map (\<lambda>(c, a, u). projr (fetch_feed env c a u)) (feed_sources RSS_FEEDS))) \<and>
     snd (run_scrape env st) = None"
proof -
  let ?all = "concat (map (\<lambda>(c, a, u). projr (fetch_feed env c a u)) (feed_sources RSS_FEEDS))"
  obtain found where f: "scrape_historical_articles env HISTORICAL_URLS = Inr found"
      "scrape_all_feeds env (st\<lparr>news_data := []\<rparr>) =
         ((st\<lparr>news_data := []\<rparr>)\<lparr>news_data := news_data (st\<lparr>news_data := []\<rparr>) @ found @ ?all\<rparr>, None)"
    using scrape_all_feeds_result [of env "st\<lparr>news_data := []\<rparr>"] by blast
  let ?st1 = "remove_duplicates (st\<lparr>news_data := found @ ?all\<rparr>)"
  have n1: "news_data ?st1 = drop_duplicates dedup_subset (found @ ?all)"
    by (simp add: remove_duplicates_def)
  obtain st2 where s2: "save_to_csv env ?st1 = (st2, None)" "news_data st2 = news_data ?st1"
    using save_to_csv_effect [of env ?st1] by auto
  obtain st3 where s3: "save_to_json env st2 = (st3, None)" "news_data st3 = news_data st2"
    using save_to_json_effect [of env st2] by auto
  obtain st4 r4 where s4: "save_to_database env st3 = (st4, r4)" "news_data st4 = news_data st3"
    using save_to_database_effect [of env st3] by auto
  have "run_scrape env st = except_Exception (st4, r4)"
    using f(2) s2(1) s3(1) s4(1) by (simp add: run_scrape_def)
  then have "run_scrape env st = (st4, None)"
    by (cases r4) (simp_all add: except_Exception_def)
  with s4(2) s3(2) s2(2) n1 f(1) show ?thesis by simp
qed




lemma add_in_condition_shape:
  "\<exists>q ps. add_in_condition column field (q0, ps0) = (q0 @ q, ps0 @ ps)"
  by (cases field) (auto simp: add_in_condition_def Let_def)

subsection \<open>Evaluation at the example inputs\<close>

lemma ex_fetch_guardian:
  "fetch_feed ex_env (py ''UK'') (py ''The Guardian'') ex_guardian_url =
     Inr [\<lparr>title = py ''No Title'', publication_date = py ''2026-11-04 12:00:00'',
           source = py ''The Guardian'', country = py ''UK'', summary = [],
           url = py ''http://example.org/1'', language = py ''unknown'',
           sentiment = py ''neutral''\<rparr>]"
  by (simp add: fetch_feed_def ex_env_def ex_guardian_url_def ex_bbc_url_def py_def
      raise_for_status_def ex_entry_def entry_pub_date_def build_article_def
      clean_text_def strip_def isspace_def utf8_roundtrip_def is_surrogate_def
      detect_language_def analyze_sentiment_def getitem_def ex_scores_def
      float_gt_def lit_0_05_def)

lemma ex_save_to_database:
  "save_to_database ex_env ex_state = (ex_state\<lparr>db := [ex_article, ex_article_later]\<rparr>, None)"
  by (simp add: save_to_database_def ex_env_def ex_state_def insert_or_ignore_def
      identity_key_def ex_article_def ex_article_later_def except_sqlite3_Error_def py_def)

lemma ex_sources:
  "(py ''UK'', py ''BBC News'', ex_bbc_url) \<in> set (feed_sources RSS_FEEDS) \<and>
   (py ''UK'', py ''The Guardian'', ex_guardian_url) \<in> set (feed_sources RSS_FEEDS)"
  by (simp add: feed_sources_def RSS_FEEDS_def ex_bbc_url_def ex_guardian_url_def)

lemma ex_fetch_old_entry:
  "fetch_feed ex_env_old_feed (py ''UK'') (py ''The Guardian'') ex_guardian_url =
     Inr [\<lparr>title = py ''Old news'', publication_date = py ''2026-11-04 12:00:00'',
           source = py ''The Guardian'', country = py ''UK'', summary = [],
           url = py ''http://example.org/1'', language = py ''unknown'',
           sentiment = py ''neutral''\<rparr>]"
  by (simp add: fetch_feed_def ex_env_old_feed_def ex_env_def ex_guardian_url_def ex_bbc_url_def
      py_def raise_for_status_def ex_old_entry_def ex_entry_def ex_old_date_def
      entry_pub_date_def build_article_def is_ValueError_def
      clean_text_def strip_def isspace_def utf8_roundtrip_def is_surrogate_def
      detect_language_def analyze_sentiment_def getitem_def ex_scores_def
      float_gt_def lit_0_05_def)

lemma ex_filter_query:
  "filter_query ex_keyword_request = (ex_keyword_query, [py ''%rain%'', py ''%rain%''])"
  by (simp add: filter_query_def ex_keyword_request_def ex_keyword_query_def
      add_in_condition_def add_keyword_condition_def py_def)

section \<open>The claims\<close>

subsection \<open>C8: the language detector\<close>

text \<open>
  C8. A text whose trimmed length is below 10 characters is classified \<^verbatim>\<open>unknown\<close>
  without raising. Otherwise the detector runs on the first 1000 characters of the text:
  \<open>detect_language\<close> returns the code it detects, and \<^verbatim>\<open>unknown\<close> when the detector
  raises or returns the empty string. \<open>detect_language\<close> never raises and never returns
  the empty string, so the language of every article built by \<open>fetch_feed\<close> and by the
  historical scraper is not empty.
\<close>

theorem detect_language_contract:
  "(length (strip text) < 10 \<longrightarrow> detect_language env text = Inr (py ''unknown'')) \<and>
   (10 \<le> length (strip text) \<longrightarrow>
      (detect env (take 1000 text) = Inr lang \<and> lang \<noteq> [] \<longrightarrow>
         detect_language env text = Inr lang) \<and>
      (detect env (take 1000 text) = Inr [] \<longrightarrow>
         detect_language env text = Inr (py ''unknown'')) \<and>
      (detect env (take 1000 text) = Inl e \<longrightarrow>
         detect_language env text = Inr (py ''unknown''))) \<and>
   (\<exists>l. detect_language env text = Inr l \<and> l \<noteq> []) \<and>
   (fetch_feed env c a u = Inr out \<and> x \<in> set out \<longrightarrow> language x \<noteq> []) \<and>
   (historical_article env c u = Inr x \<longrightarrow> language x \<noteq> [])"
proof (intro conjI impI)
  show "\<exists>l. detect_language env text = Inr l \<and> l \<noteq> []"
    by (rule detect_language_nonempty)
next
  assume "length (strip text) < 10"
  then show "detect_language env text = Inr (py ''unknown'')"
    by (simp add: detect_language_cases)
next
  assume "10 \<le> length (strip text)" and "detect env (take 1000 text) = Inr lang \<and> lang \<noteq> []"
  then show "detect_language env text = Inr lang"
    by (simp add: detect_language_cases)
next
  assume "10 \<le> length (strip text)" and "detect env (take 1000 text) = Inr []"
  then show "detect_language env text = Inr (py ''unknown'')"
    by (simp add: detect_language_cases)
next
  assume "10 \<le> length (strip text)" and "detect env (take 1000 text) = Inl e"
  then show "detect_language env text = Inr (py ''unknown'')"
    by (simp add: detect_language_cases)
next
  assume "fetch_feed env c a u = Inr out \<and> x \<in> set out"
  then show "language x \<noteq> []"
    using fetch_feed_language by blast
next
  assume "historical_article env c u = Inr x"
  then show "language x \<noteq> []"
    by (rule historical_article_language)
qed

theorem detect_language_contract_witness:
  "length (strip (py '' Hi there '')) < 10 \<and>
   detect_language ex_env (py '' Hi there '') = Inr (py ''unknown'') \<and>
   10 \<le> length (strip (py ''Heavy rain in the north'')) \<and>
   detect ex_env (take 1000 (py ''Heavy rain in the north'')) = Inr (py ''en'') \<and>
   py ''en'' \<noteq> [] \<and>
   detect_language ex_env (py ''Heavy rain in the north'') = Inr (py ''en'') \<and>
   detect (ex_env\<lparr>detect := (\<lambda>t. Inl OtherException)\<rparr>)
     (take 1000 (py ''Heavy rain in the north'')) = Inl OtherException \<and>
   detect_language (ex_env\<lparr>detect := (\<lambda>t. Inl OtherException)\<rparr>)
     (py ''Heavy rain in the north'') = Inr (py ''unknown'') \<and>
   language (hd (projr (fetch_feed ex_env (py ''UK'') (py ''The Guardian'') ex_guardian_url))) \<noteq> []"
proof -
  let ?down = "ex_env\<lparr>detect := (\<lambda>t. Inl OtherException)\<rparr>"
  have a: "length (strip (py '' Hi there '')) < 10"
    by (simp add: strip_def py_def isspace_def)
  have b: "10 \<le> length (strip (py ''Heavy rain in the north''))"
    by (simp add: strip_def py_def isspace_def)
  have c: "detect ex_env (take 1000 (py ''Heavy rain in the north'')) = Inr (py ''en'') \<and> py ''en'' \<noteq> []"
    by (simp add: ex_env_def py_def)
  have d: "detect ?down (take 1000 (py ''Heavy rain in the north'')) = Inl OtherException"
    by simp
  note t1 = detect_language_contract [of "py '' Hi there ''" ex_env]
  note t2 = detect_language_contract [of "py ''Heavy rain in the north''" ex_env "py ''en''"]
  note t3 = detect_language_contract [of "py ''Heavy rain in the north''" ?down _ OtherException]
  let ?x = "\<lparr>title = py ''No Title'', publication_date = py ''2026-11-04 12:00:00'',
           source = py ''The Guardian'', country = py ''UK'', summary = [],
           url = py ''http://example.org/1'', language = py ''unknown'',
           sentiment = py ''neutral''\<rparr>"
  note t4 = detect_language_contract [where env = ex_env and c = "py ''UK''"
      and a = "py ''The Guardian''" and u = ex_guardian_url and out = "[?x]" and x = ?x]
  have f: "fetch_feed ex_env (py ''UK'') (py ''The Guardian'') ex_guardian_url = Inr [?x] \<and>
      ?x \<in> set [?x]"
    using ex_fetch_guardian by simp
  from a t1 have "detect_language ex_env (py '' Hi there '') = Inr (py ''unknown'')"
    by blast
  moreover from b c t2 have "detect_language ex_env (py ''Heavy rain in the north'') = Inr (py ''en'')"
    by blast
  moreover from b d t3 have "detect_language ?down (py ''Heavy rain in the north'') = Inr (py ''unknown'')"
    by blast
  moreover have "language (hd (projr (fetch_feed ex_env (py ''UK'') (py ''The Guardian'')
      ex_guardian_url))) \<noteq> []"
  proof -
    from f t4 have "language ?x \<noteq> []" by blast
    with ex_fetch_guardian show ?thesis by simp
  qed
  ultimately show ?thesis using a b c d by blast
qed

subsection \<open>C5: the sentiment scorer\<close>

text \<open>
  C5. \<open>analyze_sentiment\<close> classifies by the compound score: a score above the double
  \<^verbatim>\<open>0.05\<close> is \<^verbatim>\<open>positive\<close>, a score below the double \<^verbatim>\<open>-0.05\<close> is \<^verbatim>\<open>negative\<close>,
  and a score between the two, both included, is \<^verbatim>\<open>neutral\<close>. When the scorer raises,
  or its result has no compound score, the label is \<^verbatim>\<open>unknown\<close>; \<open>analyze_sentiment\<close>
  never raises.
\<close>

theorem analyze_sentiment_thresholds:
  "(\<exists>label. analyze_sentiment env text = Inr label) \<and>
   (polarity_scores env text = Inl e \<longrightarrow> analyze_sentiment env text = Inr (py ''unknown'')) \<and>
   (polarity_scores env text = Inr scores \<and> scores (py ''compound'') = None \<longrightarrow>
      analyze_sentiment env text = Inr (py ''unknown'')) \<and>
   (polarity_scores env text = Inr scores \<and> scores (py ''compound'') = Some (Finite c) \<longrightarrow>
      (lit_0_05 < c \<longrightarrow> analyze_sentiment env text = Inr (py ''positive'')) \<and>
      (c < - lit_0_05 \<longrightarrow> analyze_sentiment env text = Inr (py ''negative'')) \<and>
      (- lit_0_05 \<le> c \<and> c \<le> lit_0_05 \<longrightarrow> analyze_sentiment env text = Inr (py ''neutral'')))"
proof (intro conjI impI)
  show "\<exists>label. analyze_sentiment env text = Inr label"
    by (rule analyze_sentiment_total)
next
  assume "polarity_scores env text = Inl e"
  then show "analyze_sentiment env text = Inr (py ''unknown'')"
    by (simp add: analyze_sentiment_def)
next
  assume "polarity_scores env text = Inr scores \<and> scores (py ''compound'') = None"
  then show "analyze_sentiment env text = Inr (py ''unknown'')"
    by (simp add: analyze_sentiment_def getitem_def)
next
  assume h: "polarity_scores env text = Inr scores \<and> scores (py ''compound'') = Some (Finite c)"
    and c: "lit_0_05 < c"
  then show "analyze_sentiment env text = Inr (py ''positive'')"
    by (simp add: analyze_sentiment_def getitem_def float_gt_def)
next
  assume h: "polarity_scores env text = Inr scores \<and> scores (py ''compound'') = Some (Finite c)"
    and c: "c < - lit_0_05"
  have "(0::rat) < lit_0_05" by (simp add: lit_0_05_def)
  with h c show "analyze_sentiment env text = Inr (py ''negative'')"
    by (simp add: analyze_sentiment_def getitem_def float_gt_def)
next
  assume h: "polarity_scores env text = Inr scores \<and> scores (py ''compound'') = Some (Finite c)"
    and c: "- lit_0_05 \<le> c \<and> c \<le> lit_0_05"
  then show "analyze_sentiment env text = Inr (py ''neutral'')"
    by (simp add: analyze_sentiment_def getitem_def float_gt_def)
qed

theorem analyze_sentiment_thresholds_witness:
  "ex_scores (Finite lit_0_05) (py ''compound'') = Some (Finite lit_0_05) \<and>
   - lit_0_05 \<le> lit_0_05 \<and>
   analyze_sentiment (ex_env_score (Finite lit_0_05)) (py ''ok'') = Inr (py ''neutral'') \<and>
   lit_0_05 < lit_0_0501 \<and>
   analyze_sentiment (ex_env_score (Finite lit_0_0501)) (py ''ok'') = Inr (py ''positive'') \<and>
   analyze_sentiment (ex_env_score (Finite (- lit_0_05))) (py ''ok'') = Inr (py ''neutral'') \<and>
   - lit_0_0501 < - lit_0_05 \<and>
   analyze_sentiment (ex_env_score (Finite (- lit_0_0501))) (py ''ok'') = Inr (py ''negative'') \<and>
   polarity_scores ex_env_scorer_down (py ''ok'') = Inl OtherException \<and>
   analyze_sentiment ex_env_scorer_down (py ''ok'') = Inr (py ''unknown'')"
proof -
  have s: "\<And>c. polarity_scores (ex_env_score c) (py ''ok'') = Inr (ex_scores c) \<and>
      ex_scores c (py ''compound'') = Some c"
    by (simp add: ex_env_score_def ex_scores_def)
  have d: "polarity_scores ex_env_scorer_down (py ''ok'') = Inl OtherException"
    by (simp add: ex_env_scorer_down_def)
  have o: "- lit_0_05 \<le> lit_0_05" "lit_0_05 < lit_0_0501" "- lit_0_0501 < - lit_0_05"
    by (simp_all add: lit_0_05_def lit_0_0501_def)
  have "analyze_sentiment (ex_env_score (Finite lit_0_05)) (py ''ok'') = Inr (py ''neutral'')"
    using analyze_sentiment_thresholds [of "ex_env_score (Finite lit_0_05)" "py ''ok''" _
        "ex_scores (Finite lit_0_05)" lit_0_05] s o by simp
  moreover
  have "analyze_sentiment (ex_env_score (Finite lit_0_0501)) (py ''ok'') = Inr (py ''positive'')"
    using analyze_sentiment_thresholds [of "ex_env_score (Finite lit_0_0501)" "py ''ok''" _
        "ex_scores (Finite lit_0_0501)" lit_0_0501] s o by simp
  moreover
  have "analyze_sentiment (ex_env_score (Finite (- lit_0_05))) (py ''ok'') = Inr (py ''neutral'')"
    using analyze_sentiment_thresholds [of "ex_env_score (Finite (- lit_0_05))" "py ''ok''" _
        "ex_scores (Finite (- lit_0_05))" "- lit_0_05"] s o by simp
  moreover
  have "analyze_sentiment (ex_env_score (Finite (- lit_0_0501))) (py ''ok'') = Inr (py ''negative'')"
    using analyze_sentiment_thresholds [of "ex_env_score (Finite (- lit_0_0501))" "py ''ok''" _
        "ex_scores (Finite (- lit_0_0501))" "- lit_0_0501"] s o by simp
  moreover
  have "analyze_sentiment ex_env_scorer_down (py ''ok'') = Inr (py ''unknown'')"
    using analyze_sentiment_thresholds [of ex_env_scorer_down "py ''ok''" OtherException] d
    by simp
  ultimately show ?thesis using s d o by simp
qed

subsection \<open>C1: the deduplicator\<close>

text \<open>
  C1, as stated, does not hold: \<open>remove_duplicates\<close> compares \<^verbatim>\<open>title\<close>, \<^verbatim>\<open>source\<close> and
  \<^verbatim>\<open>url\<close> only, so of two articles that differ in the publication date alone the second
  is dropped.
\<close>

theorem remove_duplicates_publication_date_counterexample:
  "identity_key ex_article \<noteq> identity_key ex_article_later \<and>
   news_data ex_state = [ex_article, ex_article_later] \<and>
   news_data (remove_duplicates ex_state) = [ex_article]"
  by (simp add: identity_key_def ex_article_later_def ex_article_def ex_state_def
      remove_duplicates_def drop_duplicates_def dedup_subset_def py_def)


text \<open>
  C1, amended. \<open>remove_duplicates\<close> treats two articles as the same iff their title,
  source and url are equal. The batch it leaves consists of the articles at exactly
  those positions of the batch it found at which no earlier position holds an article
  with the same title, source and url, in the order of these positions: of every group
  of articles that agree on the three columns the first occurrence is kept and the later
  ones are dropped. As consequences, the result is a subsequence of the batch, no two
  survivors have the same title, source and url, every article of the batch has a
  survivor with its title, source and url, and every survivor is the first article of
  the batch with its title, source and url.
\<close>

theorem remove_duplicates_first_wins:
  "news_data (remove_duplicates st) =
     map ((!) (news_data st))
       (filter (\<lambda>i. dedup_subset (news_data st ! i) \<notin>
                     set (map dedup_subset (take i (news_data st))))
          [0..<length (news_data st)]) \<and>
   subseq (news_data (remove_duplicates st)) (news_data st) \<and>
   distinct (map dedup_subset (news_data (remove_duplicates st))) \<and>
   (\<forall>a \<in> set (news_data st). \<exists>b \<in> set (news_data (remove_duplicates st)).
      dedup_subset b = dedup_subset a) \<and>
   (\<forall>b \<in> set (news_data (remove_duplicates st)).
      find (\<lambda>a. dedup_subset a = dedup_subset b) (news_data st) = Some b)"
proof (intro conjI ballI)
  show "news_data (remove_duplicates st) =
     map ((!) (news_data st))
       (filter (\<lambda>i. dedup_subset (news_data st ! i) \<notin>
                     set (map dedup_subset (take i (news_data st))))
          [0..<length (news_data st)])"
    by (simp add: remove_duplicates_def drop_duplicates_def drop_duplicates_seen_positions)
  show "subseq (news_data (remove_duplicates st)) (news_data st)"
    by (simp add: remove_duplicates_def drop_duplicates_def drop_duplicates_seen_subseq)
  show "distinct (map dedup_subset (news_data (remove_duplicates st)))"
    by (simp add: remove_duplicates_def drop_duplicates_def drop_duplicates_seen_distinct)
next
  fix a assume "a \<in> set (news_data st)"
  then have "dedup_subset a \<in> dedup_subset ` set (drop_duplicates_seen dedup_subset [] (news_data st))"
    by (simp add: drop_duplicates_seen_keys)
  then show "\<exists>b \<in> set (news_data (remove_duplicates st)). dedup_subset b = dedup_subset a"
    by (auto simp: remove_duplicates_def drop_duplicates_def)
next
  fix b assume "b \<in> set (news_data (remove_duplicates st))"
  then show "find (\<lambda>a. dedup_subset a = dedup_subset b) (news_data st) = Some b"
    by (simp add: remove_duplicates_def drop_duplicates_def drop_duplicates_seen_first)
qed

theorem remove_duplicates_first_wins_witness:
  "news_data ex_state_three = [ex_article, ex_article_other, ex_article_later] \<and>
   dedup_subset ex_article_later = dedup_subset ex_article \<and>
   ex_article_later \<noteq> ex_article \<and>
   dedup_subset ex_article_other \<noteq> dedup_subset ex_article \<and>
   news_data (remove_duplicates ex_state_three) = [ex_article, ex_article_other] \<and>
   ex_article_later \<in> set (news_data ex_state) \<and>
   subseq (news_data (remove_duplicates ex_state)) (news_data ex_state) \<and>
   distinct (map dedup_subset (news_data (remove_duplicates ex_state))) \<and>
   (\<exists>b \<in> set (news_data (remove_duplicates ex_state)).
      dedup_subset b = dedup_subset ex_article_later \<and>
      find (\<lambda>a. dedup_subset a = dedup_subset b) (news_data ex_state) = Some b)"
proof -
  have n: "news_data ex_state_three = [ex_article, ex_article_other, ex_article_later]"
    by (simp add: ex_state_three_def)
  have k: "dedup_subset ex_article_later = dedup_subset ex_article \<and>
      ex_article_later \<noteq> ex_article \<and>
      dedup_subset ex_article_other \<noteq> dedup_subset ex_article"
    by (simp add: dedup_subset_def ex_article_later_def ex_article_other_def ex_article_def py_def)
  from remove_duplicates_first_wins [of ex_state_three]
  have "news_data (remove_duplicates ex_state_three) =
     map ((!) (news_data ex_state_three))
       (filter (\<lambda>i. dedup_subset (news_data ex_state_three ! i) \<notin>
                     set (map dedup_subset (take i (news_data ex_state_three))))
          [0..<length (news_data ex_state_three)])"
    by (rule conjunct1)
  also have "\<dots> = [ex_article, ex_article_other]"
    unfolding n using k by (simp add: upt_rec)
  finally have three: "news_data (remove_duplicates ex_state_three) = [ex_article, ex_article_other]" .
  have m: "ex_article_later \<in> set (news_data ex_state)"
    by (simp add: ex_state_def)
  note t = remove_duplicates_first_wins [of ex_state, THEN conjunct2]
  from t m obtain b where b: "b \<in> set (news_data (remove_duplicates ex_state))"
      "dedup_subset b = dedup_subset ex_article_later"
    by blast
  from t b(1) have "find (\<lambda>a. dedup_subset a = dedup_subset b) (news_data ex_state) = Some b"
    by blast
  with t m b have "ex_article_later \<in> set (news_data ex_state) \<and>
   subseq (news_data (remove_duplicates ex_state)) (news_data ex_state) \<and>
   distinct (map dedup_subset (news_data (remove_duplicates ex_state))) \<and>
   (\<exists>b \<in> set (news_data (remove_duplicates ex_state)).
      dedup_subset b = dedup_subset ex_article_later \<and>
      find (\<lambda>a. dedup_subset a = dedup_subset b) (news_data ex_state) = Some b)"
    by blast
  with n k three show ?thesis by (intro conjI) (elim conjE, assumption)+
qed

subsection \<open>C3: the store writer is idempotent\<close>

text \<open>
  C3. Let a first run of \<open>save_to_database\<close> write its whole batch (the connection opens
  and no row raises). Then a second run with the same batch, in any environment, leaves
  the table as the first run left it, so the row count is unchanged; when the database
  raises nothing in the second run, the second run raises nothing at all, the rows that
  are already stored being skipped silently. A run never changes a row that was stored
  before it, and inserting a row whose key is stored is a no-op.
\<close>

theorem save_to_database_idempotent:
  assumes "db_connect env1 = None"
    and "snd (insert_rows env1 0 (db st) (news_data st)) = None"
  shows "db (fst (save_to_database env2 (fst (save_to_database env1 st)))) =
           db (fst (save_to_database env1 st)) \<and>
         length (db (fst (save_to_database env2 (fst (save_to_database env1 st))))) =
           length (db (fst (save_to_database env1 st))) \<and>
         snd (save_to_database env1 st) = None \<and>
         (db_connect env2 = None \<and> (\<forall>k x. db_execute env2 k x = None) \<longrightarrow>
            insert_rows env2 0 (db (fst (save_to_database env1 st))) (news_data st) =
              (db (fst (save_to_database env1 st)), None) \<and>
            snd (save_to_database env2 (fst (save_to_database env1 st))) = None) \<and>
         prefix (db st) (db (fst (save_to_database env1 st))) \<and>
         (identity_key x \<in> identity_key ` set rows \<longrightarrow> insert_or_ignore rows x = rows)"
proof -
  let ?rows = "fst (insert_rows env1 0 (db st) (news_data st))"
  let ?st1 = "fst (save_to_database env1 st)"
  have st1: "save_to_database env1 st = (st\<lparr>db := ?rows\<rparr>, None)"
    using assms by (simp add: save_to_database_connected except_sqlite3_Error_def)
  then have db1: "db ?st1 = ?rows" and nd1: "news_data ?st1 = news_data st"
    by simp_all
  have keys: "identity_key ` set (news_data st) \<subseteq> identity_key ` set ?rows"
    using assms(2) by (rule insert_rows_complete_keys)
  have same: "\<And>env k. fst (insert_rows env k ?rows (news_data st)) = ?rows"
    using keys by (rule insert_rows_all_present)
  have db2: "db (fst (save_to_database env2 ?st1)) = db ?st1"
  proof (cases "db_connect env2")
    case None
    then have "db (fst (save_to_database env2 ?st1)) =
        fst (insert_rows env2 0 (db ?st1) (news_data ?st1))"
      by (simp add: save_to_database_connected)
    with same [of env2 0] show ?thesis by (simp add: db1 nd1)
  next
    case (Some e)
    then show ?thesis by (simp add: save_to_database_not_connected)
  qed
  have quiet: "db_connect env2 = None \<and> (\<forall>k x. db_execute env2 k x = None) \<longrightarrow>
      insert_rows env2 0 (db ?st1) (news_data st) = (db ?st1, None) \<and>
      snd (save_to_database env2 ?st1) = None"
  proof
    assume q: "db_connect env2 = None \<and> (\<forall>k x. db_execute env2 k x = None)"
    then have "insert_rows env2 0 ?rows (news_data st) =
        (foldl insert_or_ignore ?rows (news_data st), None)"
      by (simp add: insert_rows_no_failure)
    with same [of env2 0] have i: "insert_rows env2 0 ?rows (news_data st) = (?rows, None)"
      by simp
    from q have "snd (save_to_database env2 ?st1) =
        except_sqlite3_Error (snd (insert_rows env2 0 (db ?st1) (news_data ?st1)))"
      by (simp add: save_to_database_connected)
    with i show "insert_rows env2 0 (db ?st1) (news_data st) = (db ?st1, None) \<and>
      snd (save_to_database env2 ?st1) = None"
      by (simp add: db1 nd1 except_sqlite3_Error_def)
  qed
  have pre: "prefix (db st) (db ?st1)"
    unfolding db1 by (rule insert_rows_prefix)
  have noop: "identity_key x \<in> identity_key ` set rows \<longrightarrow> insert_or_ignore rows x = rows"
    by (simp add: insert_or_ignore_present)
  from db2 st1 quiet pre noop show ?thesis by simp
qed

theorem save_to_database_idempotent_witness:
  "db_connect ex_env = None \<and>
   snd (insert_rows ex_env 0 (db ex_state) (news_data ex_state)) = None \<and>
   db (fst (save_to_database ex_env (fst (save_to_database ex_env ex_state)))) =
     [ex_article, ex_article_later] \<and>
   length (db (fst (save_to_database ex_env (fst (save_to_database ex_env ex_state))))) = 2 \<and>
   snd (save_to_database ex_env (fst (save_to_database ex_env ex_state))) = None"
proof -
  have a: "db_connect ex_env = None"
    by (simp add: ex_env_def)
  have b: "snd (insert_rows ex_env 0 (db ex_state) (news_data ex_state)) = None"
    by (simp add: ex_env_def ex_state_def)
  have c: "db_connect ex_env = None \<and> (\<forall>k x. db_execute ex_env k x = None)"
    by (simp add: ex_env_def)
  note t = save_to_database_idempotent [OF a b, of ex_env]
  from t have "db (fst (save_to_database ex_env (fst (save_to_database ex_env ex_state)))) =
      db (fst (save_to_database ex_env ex_state))"
    by blast
  moreover from t c
  have "snd (save_to_database ex_env (fst (save_to_database ex_env ex_state))) = None"
    by blast
  ultimately show ?thesis using a b by (simp add: ex_save_to_database)
qed

subsection \<open>C7: a failing row\<close>

text \<open>
  C7, as stated, does not hold: the \<^verbatim>\<open>try\<close> of \<open>save_to_database\<close> encloses the whole
  loop, so the first row whose write raises ends the loop. In the example the write of
  the first row raises \<^verbatim>\<open>sqlite3.Error\<close>; the second row, whose write would not raise,
  is never written.
\<close>

theorem save_to_database_row_failure_counterexample:
  "db_execute ex_env_row_failure 1 ex_article_later = None \<and>
   news_data ex_state = [ex_article, ex_article_later] \<and>
   db ex_state = [] \<and>
   save_to_database ex_env_row_failure ex_state = (ex_state, None) \<and>
   db (fst (save_to_database ex_env_row_failure ex_state)) = []"
  by (simp add: save_to_database_def ex_env_row_failure_def ex_env_def ex_state_def
      except_sqlite3_Error_def is_sqlite3_Error_def)


text \<open>
  C7, amended. \<open>save_to_database\<close> writes the rows of the batch in order and commits
  each one as it is written. When no write raises, every row has been inserted unless
  its key was stored already. Otherwise the first row whose write raises ends the run:
  the rows before it have been written, that row and the rows after it have not, and
  the exception is caught when it is an \<^verbatim>\<open>sqlite3.Error\<close> and raised to the caller
  when it is not.
\<close>

theorem save_to_database_stops_at_first_failure:
  "(db_connect env = None \<and>
    (\<forall>i < length (news_data st). db_execute env i (news_data st ! i) = None) \<longrightarrow>
      save_to_database env st =
        (st\<lparr>db := foldl insert_or_ignore (db st) (news_data st)\<rparr>, None)) \<and>
   (db_connect env = None \<and> n < length (news_data st) \<and>
    (\<forall>i < n. db_execute env i (news_data st ! i) = None) \<and>
    db_execute env n (news_data st ! n) = Some e \<longrightarrow>
      save_to_database env st =
        (st\<lparr>db := foldl insert_or_ignore (db st) (take n (news_data st))\<rparr>,
         if is_sqlite3_Error e then None else Some e))"
proof (intro conjI impI)
  assume a: "db_connect env = None \<and>
    (\<forall>i < length (news_data st). db_execute env i (news_data st ! i) = None)"
  then have "insert_rows env 0 (db st) (news_data st) =
      (foldl insert_or_ignore (db st) (news_data st), None)"
    by (simp add: insert_rows_no_failure)
  with a show "save_to_database env st =
        (st\<lparr>db := foldl insert_or_ignore (db st) (news_data st)\<rparr>, None)"
    by (simp add: save_to_database_connected except_sqlite3_Error_def)
next
  assume a: "db_connect env = None \<and> n < length (news_data st) \<and>
    (\<forall>i < n. db_execute env i (news_data st ! i) = None) \<and>
    db_execute env n (news_data st ! n) = Some e"
  then have "insert_rows env 0 (db st) (news_data st) =
      (foldl insert_or_ignore (db st) (take n (news_data st)), Some e)"
    using insert_rows_first_failure [of n "news_data st" env 0 e "db st"] by simp
  with a show "save_to_database env st =
        (st\<lparr>db := foldl insert_or_ignore (db st) (take n (news_data st))\<rparr>,
         if is_sqlite3_Error e then None else Some e)"
    by (simp add: save_to_database_connected except_sqlite3_Error_def)
qed

theorem save_to_database_stops_at_first_failure_witness:
  "db_connect ex_env_row_failure = None \<and> 0 < length (news_data ex_state) \<and>
   db_execute ex_env_row_failure 0 (news_data ex_state ! 0) = Some Sqlite3Error \<and>
   save_to_database ex_env_row_failure ex_state = (ex_state\<lparr>db := []\<rparr>, None) \<and>
   db_connect ex_env = None \<and>
   db_execute ex_env 0 ex_article = None \<and> db_execute ex_env 1 ex_article_later = None \<and>
   save_to_database ex_env ex_state = (ex_state\<lparr>db := [ex_article, ex_article_later]\<rparr>, None)"
proof -
  have a: "db_connect ex_env_row_failure = None \<and> 0 < length (news_data ex_state) \<and>
      (\<forall>i < 0. db_execute ex_env_row_failure i (news_data ex_state ! i) = None) \<and>
      db_execute ex_env_row_failure 0 (news_data ex_state ! 0) = Some Sqlite3Error"
    by (simp add: ex_env_row_failure_def ex_env_def ex_state_def)
  have b: "db_connect ex_env = None \<and>
      (\<forall>i < length (news_data ex_state). db_execute ex_env i (news_data ex_state ! i) = None)"
    by (simp add: ex_env_def)
  have k: "identity_key ex_article_later \<noteq> identity_key ex_article"
    by (simp add: identity_key_def ex_article_later_def ex_article_def py_def)
  from save_to_database_stops_at_first_failure [of ex_env_row_failure ex_state 0 Sqlite3Error] a
  have "save_to_database ex_env_row_failure ex_state =
      (ex_state\<lparr>db := foldl insert_or_ignore (db ex_state) (take 0 (news_data ex_state))\<rparr>,
       if is_sqlite3_Error Sqlite3Error then None else Some Sqlite3Error)"
    by blast
  then have c: "save_to_database ex_env_row_failure ex_state = (ex_state\<lparr>db := []\<rparr>, None)"
    by (simp add: ex_state_def is_sqlite3_Error_def)
  from save_to_database_stops_at_first_failure [of ex_env ex_state] b
  have "save_to_database ex_env ex_state =
      (ex_state\<lparr>db := foldl insert_or_ignore (db ex_state) (news_data ex_state)\<rparr>, None)"
    by blast
  then have d: "save_to_database ex_env ex_state =
      (ex_state\<lparr>db := [ex_article, ex_article_later]\<rparr>, None)"
    using k by (simp add: ex_state_def insert_or_ignore_def)
  have e: "db_execute ex_env 0 ex_article = None \<and> db_execute ex_env 1 ex_article_later = None"
    by (simp add: ex_env_def)
  from a b c d e show ?thesis by simp
qed


subsection \<open>C2: a failing source\<close>

text \<open>
  C2. \<open>fetch_feed\<close> never raises: it returns a list for every country, agency and URL,
  and the list is empty when the request raises (a network failure, or the retries are
  exhausted), when the status is an error status, when the feed cannot be parsed and when
  the feed has no entries. \<open>scrape_all_feeds\<close> raises nothing either, and the batch it
  leaves contains, as one block and in their order, the articles that \<open>fetch_feed\<close>
  returns for each configured source, whatever happens to the other sources.
\<close>

theorem fetch_feed_never_raises:
  "(\<exists>entries. fetch_feed env c a u = Inr entries) \<and>
   (session_get env u = Inl e \<longrightarrow> fetch_feed env c a u = Inr []) \<and>
   (session_get env u = Inr r \<and> 400 \<le> status_code r \<and> status_code r < 600 \<longrightarrow>
      fetch_feed env c a u = Inr []) \<and>
   (session_get env u = Inr r \<and> feedparser_parse env (content r) = Inl e \<longrightarrow>
      fetch_feed env c a u = Inr []) \<and>
   (session_get env u = Inr r \<and> feedparser_parse env (content r) = Inr [] \<longrightarrow>
      fetch_feed env c a u = Inr []) \<and>
   snd (scrape_all_feeds env st) = None \<and>
   ((c', a', u') \<in> set (feed_sources RSS_FEEDS) \<and> fetch_feed env c' a' u' = Inr found \<longrightarrow>
      sublist found (news_data (fst (scrape_all_feeds env st))))"
proof (intro conjI impI)
  show "\<exists>entries. fetch_feed env c a u = Inr entries"
    by (rule fetch_feed_total)
  show "snd (scrape_all_feeds env st) = None"
    by (rule scrape_all_feeds_no_exception)
next
  assume "session_get env u = Inl e"
  then show "fetch_feed env c a u = Inr []"
    by (rule fetch_feed_request_failure)
next
  assume "session_get env u = Inr r \<and> 400 \<le> status_code r \<and> status_code r < 600"
  then show "fetch_feed env c a u = Inr []"
    by (simp add: fetch_feed_http_error)
next
  assume "session_get env u = Inr r \<and> feedparser_parse env (content r) = Inl e"
  then show "fetch_feed env c a u = Inr []"
    by (simp add: fetch_feed_parse_failure)
next
  assume "session_get env u = Inr r \<and> feedparser_parse env (content r) = Inr []"
  then show "fetch_feed env c a u = Inr []"
    by (simp add: fetch_feed_empty_feed)
next
  assume "(c', a', u') \<in> set (feed_sources RSS_FEEDS) \<and> fetch_feed env c' a' u' = Inr found"
  then show "sublist found (news_data (fst (scrape_all_feeds env st)))"
    using scrape_all_feeds_sublist by blast
qed

theorem fetch_feed_never_raises_witness:
  "(py ''UK'', py ''BBC News'', ex_bbc_url) \<in> set (feed_sources RSS_FEEDS) \<and>
   session_get ex_env ex_bbc_url = Inl RequestException \<and>
   fetch_feed ex_env (py ''UK'') (py ''BBC News'') ex_bbc_url = Inr [] \<and>
   (py ''UK'', py ''The Guardian'', ex_guardian_url) \<in> set (feed_sources RSS_FEEDS) \<and>
   fetch_feed ex_env (py ''UK'') (py ''The Guardian'') ex_guardian_url =
     Inr [\<lparr>title = py ''No Title'', publication_date = py ''2026-11-04 12:00:00'',
           source = py ''The Guardian'', country = py ''UK'', summary = [],
           url = py ''http://example.org/1'', language = py ''unknown'',
           sentiment = py ''neutral''\<rparr>] \<and>
   sublist [\<lparr>title = py ''No Title'', publication_date = py ''2026-11-04 12:00:00'',
           source = py ''The Guardian'', country = py ''UK'', summary = [],
           url = py ''http://example.org/1'', language = py ''unknown'',
           sentiment = py ''neutral''\<rparr>]
     (news_data (fst (scrape_all_feeds ex_env ex_state))) \<and>
   snd (scrape_all_feeds ex_env ex_state) = None"
proof -
  let ?x = "\<lparr>title = py ''No Title'', publication_date = py ''2026-11-04 12:00:00'',
           source = py ''The Guardian'', country = py ''UK'', summary = [],
           url = py ''http://example.org/1'', language = py ''unknown'',
           sentiment = py ''neutral''\<rparr>"
  have d: "session_get ex_env ex_bbc_url = Inl RequestException"
    by (simp add: ex_env_def)
  note t = fetch_feed_never_raises [of ex_env "py ''UK''" "py ''BBC News''" ex_bbc_url
      RequestException _ ex_state "py ''UK''" "py ''The Guardian''" ex_guardian_url "[?x]"]
  from t d have "fetch_feed ex_env (py ''UK'') (py ''BBC News'') ex_bbc_url = Inr []"
    by blast
  moreover from t ex_sources ex_fetch_guardian
  have "sublist [?x] (news_data (fst (scrape_all_feeds ex_env ex_state)))"
    by blast
  moreover from t have "snd (scrape_all_feeds ex_env ex_state) = None"
    by blast
  ultimately show ?thesis using d ex_sources ex_fetch_guardian by blast
qed

subsection \<open>C4: the recency window\<close>

text \<open>
  C4 does not hold of \<open>fetch_feed\<close>. A timestamp that \<^verbatim>\<open>strptime\<close> parses against a
  format with \<^verbatim>\<open>%z\<close> is an aware datetime, the cutoff \<^verbatim>\<open>datetime.now() - timedelta(days=365)\<close>
  is a naive one, and the comparison of line 291 raises \<^verbatim>\<open>TypeError\<close>, which the handler
  of line 297 catches: the entry is kept and dated with the current time. So every entry
  of a feed that was fetched and parsed yields an article, whatever its timestamp, and
  the publication date of the article is a reading of the clock. The witness is an entry
  published on 2018-01-01 and fetched on 2026-11-04.
\<close>

theorem fetch_feed_keeps_every_entry:
  "session_get env u = Inr r \<and> \<not> (400 \<le> status_code r \<and> status_code r < 600) \<and>
   feedparser_parse env (content r) = Inr es \<longrightarrow>
   (\<exists>out. fetch_feed env c a u = Inr out \<and> length out = length es \<and>
      (\<forall>i < length es. publication_date (out ! i) = strftime env (Naive (now env u (Suc i)))))"
proof
  assume h: "session_get env u = Inr r \<and> \<not> (400 \<le> status_code r \<and> status_code r < 600) \<and>
   feedparser_parse env (content r) = Inr es"
  then obtain out where o: "fetch_feed env c a u = Inr out" "length out = length es"
      "\<forall>i < length es. build_article env c a (es ! i) (Naive (now env u (Suc i))) = Inr (out ! i)"
    using fetch_feed_articles [of env u r es c a] by blast
  have "\<forall>i < length es. publication_date (out ! i) = strftime env (Naive (now env u (Suc i)))"
  proof (intro allI impI)
    fix i assume "i < length es"
    with o(3) have "build_article env c a (es ! i) (Naive (now env u (Suc i))) = Inr (out ! i)"
      by blast
    with build_article_Inr [of env c a "es ! i" "Naive (now env u (Suc i))"]
    show "publication_date (out ! i) = strftime env (Naive (now env u (Suc i)))"
      by auto
  qed
  with o show "\<exists>out. fetch_feed env c a u = Inr out \<and> length out = length es \<and>
      (\<forall>i < length es. publication_date (out ! i) = strftime env (Naive (now env u (Suc i))))"
    by blast
qed

theorem fetch_feed_keeps_every_entry_witness:
  "session_get ex_env_old_feed ex_guardian_url = Inr \<lparr>status_code = 200, content = []\<rparr> \<and>
   feedparser_parse ex_env_old_feed [] = Inr [ex_old_entry] \<and>
   entry_published ex_old_entry = Some ex_old_date \<and>
   strptime ex_env_old_feed ex_old_date = Inr (1514764800000000, 0) \<and>
   1514764800000000 - 0 < now ex_env_old_feed ex_guardian_url 0 - days_365 \<and>
   (\<exists>out. fetch_feed ex_env_old_feed (py ''UK'') (py ''The Guardian'') ex_guardian_url = Inr out \<and>
      length out = 1 \<and> publication_date (out ! 0) = py ''2026-11-04 12:00:00'')"
proof -
  have a: "session_get ex_env_old_feed ex_guardian_url = Inr \<lparr>status_code = 200, content = []\<rparr>"
    by (simp add: ex_env_old_feed_def ex_env_def ex_guardian_url_def ex_bbc_url_def py_def)
  have b: "feedparser_parse ex_env_old_feed [] = Inr [ex_old_entry]"
    by (simp add: ex_env_old_feed_def)
  have c: "entry_published ex_old_entry = Some ex_old_date \<and>
      strptime ex_env_old_feed ex_old_date = Inr (1514764800000000, 0) \<and>
      1514764800000000 - 0 < now ex_env_old_feed ex_guardian_url 0 - days_365"
    by (simp add: ex_old_entry_def ex_env_old_feed_def ex_env_def days_365_def)
  have f: "\<And>d. strftime ex_env_old_feed (Naive d) = py ''2026-11-04 12:00:00''"
    by (simp add: ex_env_old_feed_def ex_env_def)
  from fetch_feed_keeps_every_entry [of ex_env_old_feed ex_guardian_url
      "\<lparr>status_code = 200, content = []\<rparr>" "[ex_old_entry]" "py ''UK''" "py ''The Guardian''"] a b
  obtain out where o: "fetch_feed ex_env_old_feed (py ''UK'') (py ''The Guardian'') ex_guardian_url = Inr out"
      "length out = 1"
      "\<forall>i < length [ex_old_entry]. publication_date (out ! i) =
         strftime ex_env_old_feed (Naive (now ex_env_old_feed ex_guardian_url (Suc i)))"
    by auto
  from o(3) f have "publication_date (out ! 0) = py ''2026-11-04 12:00:00''"
    by simp
  with o(1,2) a b c show ?thesis by blast
qed


subsection \<open>C9: the title of an article\<close>





subsection \<open>C6: the keyword filter\<close>

text \<open>
  C6 does not hold of \<open>filter_news\<close>. For every request with a keyword the query text
  ends in \<^verbatim>\<open> AND (title LIKE ? summary LIKE ?)\<close>, where no operator joins the two
  conditions, and whenever the database raises on the query the endpoint answers with
  the service error 500 instead of rows.
\<close>

theorem filter_news_keyword_query:
  "keyword_filter f = Some k \<and> k \<noteq> [] \<longrightarrow>
     (\<exists>q ps. filter_query f =
        (py ''SELECT * FROM news WHERE 1=1'' @ q @ py '' AND (title LIKE ? summary LIKE ?)'',
         ps @ [py ''%'' @ k @ py ''%'', py ''%'' @ k @ py ''%''])) \<and>
     (db_connect env = Some e \<or>
      read_sql_query env (fst (filter_query f)) (snd (filter_query f)) = Inl e \<longrightarrow>
        filter_news env f = Inl (HTTPException 500))"
proof
  assume h: "keyword_filter f = Some k \<and> k \<noteq> []"
  let ?q0 = "py ''SELECT * FROM news WHERE 1=1''"
  obtain q1 p1 where s1: "add_in_condition (py ''country'') (country_filter f) (?q0, []) =
      (?q0 @ q1, [] @ p1)"
    using add_in_condition_shape by blast
  obtain q2 p2 where s2: "add_in_condition (py ''source'') (source_filter f) (?q0 @ q1, p1) =
      ((?q0 @ q1) @ q2, p1 @ p2)"
    using add_in_condition_shape by blast
  obtain q3 p3 where s3: "add_in_condition (py ''language'') (language_filter f)
      (?q0 @ q1 @ q2, p1 @ p2) = ((?q0 @ q1 @ q2) @ q3, (p1 @ p2) @ p3)"
    using add_in_condition_shape by blast
  obtain q4 p4 where s4: "add_in_condition (py ''sentiment'') (sentiment_filter f)
      (?q0 @ q1 @ q2 @ q3, p1 @ p2 @ p3) = ((?q0 @ q1 @ q2 @ q3) @ q4, (p1 @ p2 @ p3) @ p4)"
    using add_in_condition_shape by blast
  obtain q5 p5 where s5: "add_in_condition
      (py ''strftime('' @ [39] @ py ''%Y'' @ [39] @ py '', publication_date)'') (year_filter f)
      (?q0 @ q1 @ q2 @ q3 @ q4, p1 @ p2 @ p3 @ p4) =
      ((?q0 @ q1 @ q2 @ q3 @ q4) @ q5, (p1 @ p2 @ p3 @ p4) @ p5)"
    using add_in_condition_shape by blast
  have "filter_query f =
      (?q0 @ (q1 @ q2 @ q3 @ q4 @ q5) @ py '' AND (title LIKE ? summary LIKE ?)'',
       (p1 @ p2 @ p3 @ p4 @ p5) @ [py ''%'' @ k @ py ''%'', py ''%'' @ k @ py ''%''])"
    using h s1 s2 s3 s4 s5 by (simp add: filter_query_def add_keyword_condition_def)
  then have shape: "\<exists>q ps. filter_query f =
        (?q0 @ q @ py '' AND (title LIKE ? summary LIKE ?)'',
         ps @ [py ''%'' @ k @ py ''%'', py ''%'' @ k @ py ''%''])"
    by blast
  have fail: "db_connect env = Some e \<or>
      read_sql_query env (fst (filter_query f)) (snd (filter_query f)) = Inl e \<longrightarrow>
        filter_news env f = Inl (HTTPException 500)"
    by (cases "db_connect env") (auto simp: filter_news_def case_prod_unfold)
  from shape fail show "(\<exists>q ps. filter_query f =
        (py ''SELECT * FROM news WHERE 1=1'' @ q @ py '' AND (title LIKE ? summary LIKE ?)'',
         ps @ [py ''%'' @ k @ py ''%'', py ''%'' @ k @ py ''%''])) \<and>
     (db_connect env = Some e \<or>
      read_sql_query env (fst (filter_query f)) (snd (filter_query f)) = Inl e \<longrightarrow>
        filter_news env f = Inl (HTTPException 500))"
    by blast
qed

theorem filter_news_keyword_query_witness:
  "keyword_filter ex_keyword_request = Some (py ''rain'') \<and> py ''rain'' \<noteq> [] \<and>
   filter_query ex_keyword_request = (ex_keyword_query, [py ''%rain%'', py ''%rain%'']) \<and>
   read_sql_query ex_env ex_keyword_query [py ''%rain%'', py ''%rain%''] = Inl DatabaseError \<and>
   filter_news ex_env ex_keyword_request = Inl (HTTPException 500)"
proof -
  have a: "keyword_filter ex_keyword_request = Some (py ''rain'') \<and> py ''rain'' \<noteq> []"
    by (simp add: ex_keyword_request_def py_def)
  have b: "read_sql_query ex_env ex_keyword_query [py ''%rain%'', py ''%rain%''] = Inl DatabaseError"
    by (simp add: ex_env_def)
  from filter_news_keyword_query [of ex_keyword_request "py ''rain''" ex_env DatabaseError] a b
  have "filter_news ex_env ex_keyword_request = Inl (HTTPException 500)"
    by (simp add: ex_filter_query)
  with a b ex_filter_query show ?thesis by simp
qed

subsection \<open>C10: the batch between runs\<close>

text \<open>
  C10. \<open>run_scrape\<close> does not depend on the batch it finds: the batch it leaves is made
  of the articles of this run only. \<open>scrape_single_feed\<close> appends the entries of the feed
  to the batch it finds and hands the whole batch to the store writer and to the two
  exports: the table is the result of writing the old batch followed by the new entries,
  each export that succeeds holds the old batch followed by the new entries, and when
  the database raises nothing the key of every article of the old batch is stored. What
  \<open>scrape_single_feed\<close> returns is the list of the new entries only.
\<close>

theorem scrape_single_feed_accumulates:
  "run_scrape env (st\<lparr>news_data := b\<rparr>) = run_scrape env (st\<lparr>news_data := []\<rparr>) \<and>
   (\<exists>found. scrape_historical_articles env HISTORICAL_URLS = Inr found \<and>
      news_data (fst (run_scrape env st)) =
        drop_duplicates dedup_subset
          (found @ concat (map (\<lambda>(c, a, u). projr (fetch_feed env c a u)) (feed_sources RSS_FEEDS)))) \<and>
   (\<exists>entries st' r. fetch_feed env c a u = Inr entries \<and>
      scrape_single_feed env u c a st = (st', r) \<and>
      news_data st' = news_data st @ entries \<and>
      (r = Inr entries \<or> (\<exists>e. r = Inl e)) \<and>
      (db_connect env = None \<longrightarrow>
         db st' = fst (insert_rows env 0 (db st) (news_data st @ entries))) \<and>
      (r = Inr entries \<and> to_csv env (news_data st @ entries) = None \<longrightarrow>
         csv_file st' = Records (news_data st @ entries)) \<and>
      (r = Inr entries \<and> to_json env (news_data st @ entries) = None \<longrightarrow>
         json_file st' = Records (news_data st @ entries)) \<and>
      (db_connect env = None \<and> (\<forall>k x. db_execute env k x = None) \<longrightarrow>
         r = Inr entries \<and>
         identity_key ` set (news_data st @ entries) \<subseteq> identity_key ` set (db st')))"
proof (intro conjI)
  show "run_scrape env (st\<lparr>news_data := b\<rparr>) = run_scrape env (st\<lparr>news_data := []\<rparr>)"
    by (simp add: run_scrape_def)
  show "\<exists>found. scrape_historical_articles env HISTORICAL_URLS = Inr found \<and>
      news_data (fst (run_scrape env st)) =
        drop_duplicates dedup_subset
          (found @ concat (map (\<lambda>(c, a, u). projr (fetch_feed env c a u)) (feed_sources RSS_FEEDS)))"
    using run_scrape_batch [of env st] by blast
  obtain entries where e: "fetch_feed env c a u = Inr entries"
    using fetch_feed_total by blast
  let ?batch = "news_data st @ entries"
  obtain st' r where s: "scrape_single_feed env u c a st = (st', r)"
      "news_data st' = ?batch"
      "r = Inr entries \<or> (\<exists>e. r = Inl e)"
      "db_connect env = None \<longrightarrow> db st' = fst (insert_rows env 0 (db st) ?batch)"
      "r = Inr entries \<and> to_csv env ?batch = None \<longrightarrow> csv_file st' = Records ?batch"
      "r = Inr entries \<and> to_json env ?batch = None \<longrightarrow> json_file st' = Records ?batch"
      "db_connect env = None \<and> snd (insert_rows env 0 (db st) ?batch) = None \<longrightarrow> r = Inr entries"
    using scrape_single_feed_effect [OF e, of st] by (elim exE conjE) (rule that)
  have q: "db_connect env = None \<and> (\<forall>k x. db_execute env k x = None) \<longrightarrow>
      r = Inr entries \<and> identity_key ` set ?batch \<subseteq> identity_key ` set (db st')"
  proof
    assume h: "db_connect env = None \<and> (\<forall>k x. db_execute env k x = None)"
    then have "insert_rows env 0 (db st) ?batch = (foldl insert_or_ignore (db st) ?batch, None)"
      by (simp add: insert_rows_no_failure)
    then have n: "snd (insert_rows env 0 (db st) ?batch) = None" by simp
    then have "identity_key ` set ?batch \<subseteq>
        identity_key ` set (fst (insert_rows env 0 (db st) ?batch))"
      by (rule insert_rows_complete_keys)
    with h n s(4,7) show "r = Inr entries \<and>
        identity_key ` set ?batch \<subseteq> identity_key ` set (db st')"
      by simp
  qed
  show "\<exists>entries st' r. fetch_feed env c a u = Inr entries \<and>
      scrape_single_feed env u c a st = (st', r) \<and>
      news_data st' = news_data st @ entries \<and>
      (r = Inr entries \<or> (\<exists>e. r = Inl e)) \<and>
      (db_connect env = None \<longrightarrow>
         db st' = fst (insert_rows env 0 (db st) (news_data st @ entries))) \<and>
      (r = Inr entries \<and> to_csv env (news_data st @ entries) = None \<longrightarrow>
         csv_file st' = Records (news_data st @ entries)) \<and>
      (r = Inr entries \<and> to_json env (news_data st @ entries) = None \<longrightarrow>
         json_file st' = Records (news_data st @ entries)) \<and>
      (db_connect env = None \<and> (\<forall>k x. db_execute env k x = None) \<longrightarrow>
         r = Inr entries \<and>
         identity_key ` set (news_data st @ entries) \<subseteq> identity_key ` set (db st'))"
    using e s q by (intro exI [of _ entries] exI [of _ st'] exI [of _ r]) simp
qed

theorem scrape_single_feed_accumulates_witness:
  "news_data ex_state = [ex_article, ex_article_later] \<and>
   db_connect ex_env = None \<and> (\<forall>k x. db_execute ex_env k x = None) \<and>
   fetch_feed ex_env (py ''UK'') (py ''The Guardian'') ex_guardian_url =
     Inr [\<lparr>title = py ''No Title'', publication_date = py ''2026-11-04 12:00:00'',
           source = py ''The Guardian'', country = py ''UK'', summary = [],
           url = py ''http://example.org/1'', language = py ''unknown'',
           sentiment = py ''neutral''\<rparr>] \<and>
   snd (scrape_single_feed ex_env ex_guardian_url (py ''UK'') (py ''The Guardian'') ex_state) =
     Inr [\<lparr>title = py ''No Title'', publication_date = py ''2026-11-04 12:00:00'',
           source = py ''The Guardian'', country = py ''UK'', summary = [],
           url = py ''http://example.org/1'', language = py ''unknown'',
           sentiment = py ''neutral''\<rparr>] \<and>
   news_data (fst (scrape_single_feed ex_env ex_guardian_url (py ''UK'') (py ''The Guardian'')
       ex_state)) =
     [ex_article, ex_article_later,
      \<lparr>title = py ''No Title'', publication_date = py ''2026-11-04 12:00:00'',
           source = py ''The Guardian'', country = py ''UK'', summary = [],
           url = py ''http://example.org/1'', language = py ''unknown'',
           sentiment = py ''neutral''\<rparr>] \<and>
   csv_file (fst (scrape_single_feed ex_env ex_guardian_url (py ''UK'') (py ''The Guardian'')
       ex_state)) =
     Records [ex_article, ex_article_later,
      \<lparr>title = py ''No Title'', publication_date = py ''2026-11-04 12:00:00'',
           source = py ''The Guardian'', country = py ''UK'', summary = [],
           url = py ''http://example.org/1'', language = py ''unknown'',
           sentiment = py ''neutral''\<rparr>] \<and>
   identity_key ex_article \<in> identity_key `
     set (db (fst (scrape_single_feed ex_env ex_guardian_url (py ''UK'') (py ''The Guardian'')
       ex_state)))"
proof -
  let ?x = "\<lparr>title = py ''No Title'', publication_date = py ''2026-11-04 12:00:00'',
           source = py ''The Guardian'', country = py ''UK'', summary = [],
           url = py ''http://example.org/1'', language = py ''unknown'',
           sentiment = py ''neutral''\<rparr>"
  let ?r = "scrape_single_feed ex_env ex_guardian_url (py ''UK'') (py ''The Guardian'') ex_state"
  have n: "news_data ex_state = [ex_article, ex_article_later]"
    by (simp add: ex_state_def)
  have d: "db_connect ex_env = None \<and> (\<forall>k x. db_execute ex_env k x = None)"
    by (simp add: ex_env_def)
  have w: "\<And>b. to_csv ex_env b = None"
    by (simp add: ex_env_def)
  from scrape_single_feed_accumulates [where env = ex_env and st = ex_state
      and c = "py ''UK''" and a = "py ''The Guardian''" and u = ex_guardian_url,
      THEN conjunct2, THEN conjunct2]
  obtain entries st' r where s:
      "fetch_feed ex_env (py ''UK'') (py ''The Guardian'') ex_guardian_url = Inr entries"
      "?r = (st', r)"
      "news_data st' = news_data ex_state @ entries"
      "r = Inr entries \<and> to_csv ex_env (news_data ex_state @ entries) = None \<longrightarrow>
         csv_file st' = Records (news_data ex_state @ entries)"
      "db_connect ex_env = None \<and> (\<forall>k x. db_execute ex_env k x = None) \<longrightarrow>
         r = Inr entries \<and>
         identity_key ` set (news_data ex_state @ entries) \<subseteq> identity_key ` set (db st')"
    by (elim exE conjE) (rule that)
  from s(1) ex_fetch_guardian have e: "entries = [?x]" by simp
  from s(5) d have r: "r = Inr entries"
      and k: "identity_key ` set (news_data ex_state @ entries) \<subseteq> identity_key ` set (db st')"
    by blast+
  from s(4) r w have c: "csv_file st' = Records (news_data ex_state @ entries)" by blast
  from k n have i: "identity_key ex_article \<in> identity_key ` set (db st')" by auto
  from s(2) r e have r': "snd ?r = Inr [?x]" and f: "fst ?r = st'" by simp_all
  from s(3) n e have n': "news_data st' = [ex_article, ex_article_later, ?x]" by simp
  from c n e have c': "csv_file st' = Records [ex_article, ex_article_later, ?x]" by simp
  show ?thesis
    unfolding f r' using n d [THEN conjunct1] d [THEN conjunct2] ex_fetch_guardian n' c' i
    by (intro conjI) (assumption | rule refl)+
qed


end
